theory Spec2Isabelle
  imports Complex_Main
begin

section \<open>Array elements\<close>

text \<open>
  The elements of every array of \<^verbatim>\<open>gmm_diag_hmm.py\<close> are floating-point numbers.
  They are modelled as exact reals together with the three special values that the
  arithmetic of the program can produce and that its control flow depends on:
  \<open>jnp.log 0\<close> is minus infinity, not an error, and an undefined Dirichlet mode is
  NaN.  Rounding, overflow to infinity and signed zeros are not modelled.
\<close>

datatype fl = Fin real | PInf | NInf | NaN

fun is_fin :: "fl \<Rightarrow> bool" where
  "is_fin (Fin _) = True"
| "is_fin _ = False"

fun the_fin :: "fl \<Rightarrow> real" where
  "the_fin (Fin a) = a"
| "the_fin _ = 0"

instantiation fl :: "{zero, one, plus, uminus}"
begin

definition zero_fl :: fl where
  "zero_fl = Fin 0"

definition one_fl :: fl where
  "one_fl = Fin 1"

fun plus_fl :: "fl \<Rightarrow> fl \<Rightarrow> fl" where
  "plus_fl (Fin a) (Fin b) = Fin (a + b)"
| "plus_fl NaN _ = NaN"
| "plus_fl _ NaN = NaN"
| "plus_fl PInf NInf = NaN"
| "plus_fl NInf PInf = NaN"
| "plus_fl PInf _ = PInf"
| "plus_fl _ PInf = PInf"
| "plus_fl NInf _ = NInf"
| "plus_fl _ NInf = NInf"

fun uminus_fl :: "fl \<Rightarrow> fl" where
  "uminus_fl (Fin a) = Fin (- a)"
| "uminus_fl PInf = NInf"
| "uminus_fl NInf = PInf"
| "uminus_fl NaN = NaN"

instance ..

end

instantiation fl :: minus
begin

definition minus_fl :: "fl \<Rightarrow> fl \<Rightarrow> fl" where
  "minus_fl x y = x + (- y)"

instance ..

end

text \<open>The sign of an infinite product or quotient with the finite factor \<open>s\<close>.\<close>

definition sgn_inf :: "real \<Rightarrow> fl" where
  "sgn_inf s = (if 0 < s then PInf else if s < 0 then NInf else NaN)"

instantiation fl :: "{times, abs, ord}"
begin

fun times_fl :: "fl \<Rightarrow> fl \<Rightarrow> fl" where
  "times_fl (Fin a) (Fin b) = Fin (a * b)"
| "times_fl NaN _ = NaN"
| "times_fl _ NaN = NaN"
| "times_fl PInf (Fin b) = sgn_inf b"
| "times_fl (Fin a) PInf = sgn_inf a"
| "times_fl NInf (Fin b) = sgn_inf (- b)"
| "times_fl (Fin a) NInf = sgn_inf (- a)"
| "times_fl PInf PInf = PInf"
| "times_fl NInf NInf = PInf"
| "times_fl PInf NInf = NInf"
| "times_fl NInf PInf = NInf"

fun abs_fl :: "fl \<Rightarrow> fl" where
  "abs_fl (Fin a) = Fin \<bar>a\<bar>"
| "abs_fl PInf = PInf"
| "abs_fl NInf = PInf"
| "abs_fl NaN = NaN"

text \<open>Comparisons with NaN are false.\<close>

fun less_fl :: "fl \<Rightarrow> fl \<Rightarrow> bool" where
  "less_fl (Fin a) (Fin b) = (a < b)"
| "less_fl NaN _ = False"
| "less_fl _ NaN = False"
| "less_fl NInf NInf = False"
| "less_fl NInf _ = True"
| "less_fl PInf _ = False"
| "less_fl _ PInf = True"
| "less_fl _ NInf = False"

fun less_eq_fl :: "fl \<Rightarrow> fl \<Rightarrow> bool" where
  "less_eq_fl (Fin a) (Fin b) = (a \<le> b)"
| "less_eq_fl NaN _ = False"
| "less_eq_fl _ NaN = False"
| "less_eq_fl NInf _ = True"
| "less_eq_fl _ PInf = True"
| "less_eq_fl PInf _ = False"
| "less_eq_fl _ NInf = False"

instance ..

end

instantiation fl :: divide
begin

fun divide_fl :: "fl \<Rightarrow> fl \<Rightarrow> fl" where
  "divide_fl (Fin a) (Fin b) = (if b = 0 then sgn_inf a else Fin (a / b))"
| "divide_fl NaN _ = NaN"
| "divide_fl _ NaN = NaN"
| "divide_fl (Fin a) PInf = Fin 0"
| "divide_fl (Fin a) NInf = Fin 0"
| "divide_fl PInf (Fin b) = (if 0 \<le> b then PInf else NInf)"
| "divide_fl NInf (Fin b) = (if 0 \<le> b then NInf else PInf)"
| "divide_fl PInf PInf = NaN"
| "divide_fl PInf NInf = NaN"
| "divide_fl NInf PInf = NaN"
| "divide_fl NInf NInf = NaN"

instance ..

end

instantiation fl :: inverse
begin

definition inverse_fl :: "fl \<Rightarrow> fl" where
  "inverse_fl x = divide (Fin 1) x"

instance ..

end

instance fl :: comm_monoid_add
proof
  fix x y z :: fl
  show "x + y = y + x"
    by (cases x; cases y; simp)
  show "x + y + z = x + (y + z)"
    by (cases x; cases y; cases z; simp)
  show "0 + x = x"
    unfolding zero_fl_def by (cases x; simp)
qed

text \<open>\<open>jnp.log\<close> and \<open>jnp.exp\<close>.\<close>

fun fl_log :: "fl \<Rightarrow> fl" where
  "fl_log (Fin a) = (if 0 < a then Fin (ln a) else if a = 0 then NInf else NaN)"
| "fl_log PInf = PInf"
| "fl_log NInf = NaN"
| "fl_log NaN = NaN"

fun fl_exp :: "fl \<Rightarrow> fl" where
  "fl_exp (Fin a) = Fin (exp a)"
| "fl_exp PInf = PInf"
| "fl_exp NInf = Fin 0"
| "fl_exp NaN = NaN"

text \<open>
  \<open>jnp.maximum\<close> of two elements (NaN propagates) and \<open>jnp.max\<close> along an axis.  An
  axis of length zero, which has no maximum, does not occur where the program takes
  one: it is the component axis of a state.
\<close>

fun fl_maximum :: "fl \<Rightarrow> fl \<Rightarrow> fl" where
  "fl_maximum NaN _ = NaN"
| "fl_maximum _ NaN = NaN"
| "fl_maximum x y = (if x < y then y else x)"

fun jnp_max :: "fl list \<Rightarrow> fl" where
  "jnp_max [] = NInf"
| "jnp_max [x] = x"
| "jnp_max (x # y # ys) = fl_maximum x (jnp_max (y # ys))"

text \<open>
  \<open>jax.scipy.special.logsumexp\<close> along the last axis: the maximum is subtracted before
  exponentiating, and a maximum that is not finite is replaced by zero.
\<close>

definition logsumexp :: "fl list \<Rightarrow> fl" where
  "logsumexp a =
     (let amax = jnp_max a;
          amax = (if is_fin amax then amax else Fin 0)
      in fl_log (sum_list (map (\<lambda>x. fl_exp (x - amax)) a)) + amax)"

text \<open>
  \<open>tfd.MultivariateNormalDiag(loc, scale_diag).log_prob(x)\<close> for one component: the
  standard normal log-density of the standardised coordinates, summed over the event
  axis, minus the log-determinant of the scale.
\<close>

definition std_normal_log_prob :: "fl \<Rightarrow> fl" where
  "std_normal_log_prob z = Fin (- (1 / 2)) * (z * z) - Fin (ln (2 * pi) / 2)"

definition mvn_diag_log_prob :: "fl list \<Rightarrow> fl list \<Rightarrow> fl list \<Rightarrow> fl" where
  "mvn_diag_log_prob loc scale_diag x =
     sum_list (map (\<lambda>(xd, md, sd). std_normal_log_prob ((xd - md) / sd))
                   (zip x (zip loc scale_diag)))
     - sum_list (map (\<lambda>sd. fl_log \<bar>sd\<bar>) scale_diag)"

section \<open>Arrays\<close>

text \<open>
  An array of shape \<open>(a, b, c)\<close> is a list of \<open>a\<close> lists of \<open>b\<close> lists of \<open>c\<close>
  elements.  Elementwise addition of arrays of equal shape, and \<open>jnp.sum(axis=0)\<close>.
  The sum over an empty leading axis (an array of zeros of the remaining shape) has no
  representation as nested lists and is \<open>[]\<close> here.  Where the program pairs arrays
  along an axis (\<open>vmap\<close>, \<open>einsum\<close>, elementwise arithmetic) the model zips them; axes of
  unequal length, which the program rejects or broadcasts, are excluded by the shape
  hypotheses of the theorems.
\<close>

definition add1 :: "fl list \<Rightarrow> fl list \<Rightarrow> fl list" where
  "add1 = map2 (+)"

definition add2 :: "fl list list \<Rightarrow> fl list list \<Rightarrow> fl list list" where
  "add2 = map2 add1"

definition add3 :: "fl list list list \<Rightarrow> fl list list list \<Rightarrow> fl list list list" where
  "add3 = map2 add2"

definition sum_axis0 :: "('a list \<Rightarrow> 'a list \<Rightarrow> 'a list) \<Rightarrow> 'a list list \<Rightarrow> 'a list" where
  "sum_axis0 add xs = (case xs of [] \<Rightarrow> [] | x # r \<Rightarrow> foldl add x r)"

text \<open>The three contractions of the E-step.\<close>

definition einsum_tk_tkm_tkm :: "fl list list \<Rightarrow> fl list list list \<Rightarrow> fl list list list" where
  "einsum_tk_tkm_tkm a b =
     map2 (\<lambda>a_t b_t. map2 (\<lambda>a_tk b_tk. map (\<lambda>b_tkm. a_tk * b_tkm) b_tk) a_t b_t) a b"

definition einsum_tkm_tn_kmn :: "fl list list list \<Rightarrow> fl list list \<Rightarrow> fl list list list" where
  "einsum_tkm_tn_kmn a b =
     sum_axis0 add3
       (map2 (\<lambda>a_t b_t. map (map (\<lambda>a_tkm. map (\<lambda>b_tn. a_tkm * b_tn) b_t)) a_t) a b)"

definition einsum_tkm_tn_tn_kmn ::
  "fl list list list \<Rightarrow> fl list list \<Rightarrow> fl list list \<Rightarrow> fl list list list" where
  "einsum_tkm_tn_tn_kmn a b c =
     sum_axis0 add3
       (map2 (\<lambda>a_t (b_t, c_t).
                map (map (\<lambda>a_tkm. map2 (\<lambda>b_tn c_tn. a_tkm * b_tn * c_tn) b_t c_t)) a_t)
             a (zip b c))"

section \<open>The model and its collaborators\<close>

datatype error = AssertionError | AttributeError | ValueError | IndexError

text \<open>
  An argument of the constructor: an array with its shape and its elements in row-major
  order.  A prior hyperparameter is a Python float, an array, or another object, which
  has no attribute \<open>shape\<close>.
\<close>

record ndarray =
  arr_shape :: "nat list"
  elems :: "fl list"

datatype hyper = PyFloat fl | Array ndarray | PyObject

definition ones :: "nat list \<Rightarrow> ndarray" where
  "ones sh = \<lparr>arr_shape = sh, elems = replicate (prod_list sh) (Fin 1)\<rparr>"

definition scalar_times :: "fl \<Rightarrow> ndarray \<Rightarrow> ndarray" where
  "scalar_times x a = a\<lparr>elems := map (\<lambda>y. x * y) (elems a)\<rparr>"

text \<open>The nested lists of an array of rank one, two and three.\<close>

definition to_list1 :: "ndarray \<Rightarrow> fl list" where
  "to_list1 a = (case arr_shape a of [n] \<Rightarrow> map (\<lambda>i. elems a ! i) [0..<n] | _ \<Rightarrow> [])"

definition to_list2 :: "ndarray \<Rightarrow> fl list list" where
  "to_list2 a =
     (case arr_shape a of
        [r, c] \<Rightarrow> map (\<lambda>i. map (\<lambda>j. elems a ! (i * c + j)) [0..<c]) [0..<r]
      | _ \<Rightarrow> [])"

definition to_list3 :: "ndarray \<Rightarrow> fl list list list" where
  "to_list3 a =
     (case arr_shape a of
        [p, r, c] \<Rightarrow>
          map (\<lambda>h. map (\<lambda>i. map (\<lambda>j. elems a ! ((h * r + i) * c + j)) [0..<c]) [0..<r])
              [0..<p]
      | _ \<Rightarrow> [])"

text \<open>
  The fields of \<open>GaussianMixtureDiagHMM\<close>.  The state of the base class
  \<open>StandardHMM\<close>, which is not part of this file, is the field \<open>base\<close> of an
  arbitrary type.
\<close>

record 'b gmm_diag_hmm =
  base :: 'b
  emission_mixture_weights :: "fl list list"
  emission_means :: "fl list list list"
  emission_cov_diag_factors :: "fl list list list"
  emission_mixture_weights_concentration :: "fl list"
  emission_prior_mean :: "fl list list"
  emission_prior_mean_concentration :: "fl list"
  emission_prior_shape :: "fl list"
  emission_prior_scale :: "fl list list"

text \<open>The result of the smoother, as far as this file reads it.\<close>

record posterior =
  marginal_loglik :: fl
  smoothed_probs :: "fl list list"

text \<open>
  The functions this file calls and does not define: the methods of the base class and
  the inference routines of \<open>ssm_jax.hmm.inference\<close>.  They are parameters of the
  model.
\<close>

record 'b collaborators =
  standard_hmm_init :: "ndarray \<Rightarrow> ndarray \<Rightarrow> hyper \<Rightarrow> hyper \<Rightarrow> error + 'b"
  compute_initial_probs :: "'b gmm_diag_hmm \<Rightarrow> fl list"
  compute_transition_matrices :: "'b gmm_diag_hmm \<Rightarrow> fl list list"
  compute_conditional_logliks :: "'b gmm_diag_hmm \<Rightarrow> fl list list \<Rightarrow> fl list list"
  hmm_smoother :: "fl list \<Rightarrow> fl list list \<Rightarrow> fl list list \<Rightarrow> posterior"
  transition_matrix_value :: "'b \<Rightarrow> fl list list"
  compute_transition_probs :: "fl list list \<Rightarrow> posterior \<Rightarrow> fl list list"

text \<open>
  The sufficient statistics of one sequence.  The first three fields carry the prefix
  \<open>stats\<close> to keep them apart from the fields of the posterior.
\<close>

record GMMDiagHMMSuffStats =
  stats_marginal_loglik :: fl
  stats_initial_probs :: "fl list"
  stats_trans_probs :: "fl list list"
  N :: "fl list list"
  Sx :: "fl list list list"
  SxxT :: "fl list list list"

text \<open>
  The shapes of the emission parameters: \<open>K\<close> states with \<open>M\<close> components each.
\<close>

definition mixture_shape :: "'b gmm_diag_hmm \<Rightarrow> nat \<Rightarrow> nat \<Rightarrow> bool" where
  "mixture_shape m K M =
     (length (emission_means m) = K \<and> length (emission_cov_diag_factors m) = K
      \<and> length (emission_mixture_weights m) = K
      \<and> list_all (\<lambda>r. length r = M) (emission_means m)
      \<and> list_all (\<lambda>r. length r = M) (emission_cov_diag_factors m)
      \<and> list_all (\<lambda>r. length r = M) (emission_mixture_weights m))"

text \<open>
  The values an emission model can hold: finite means, finite positive scales, and
  finite non-negative mixture weights.
\<close>

definition emission_params_ok :: "'b gmm_diag_hmm \<Rightarrow> bool" where
  "emission_params_ok m =
     (list_all (list_all (list_all is_fin)) (emission_means m)
      \<and> list_all (list_all (list_all (\<lambda>s. is_fin s \<and> Fin 0 < s)))
           (emission_cov_diag_factors m)
      \<and> list_all (list_all (\<lambda>w. is_fin w \<and> Fin 0 \<le> w)) (emission_mixture_weights m))"

section \<open>The E-step\<close>

text \<open>\<open>prob_fn\<close>: the responsibilities of the components of every state for one emission.\<close>

definition logprobs :: "'b gmm_diag_hmm \<Rightarrow> fl list \<Rightarrow> fl list list" where
  "logprobs m x =
     map (\<lambda>(mus, sigmas, weights).
            map (\<lambda>(mu, sigma, w). mvn_diag_log_prob mu sigma x + fl_log w)
                (zip mus (zip sigmas weights)))
         (zip (emission_means m)
              (zip (emission_cov_diag_factors m) (emission_mixture_weights m)))"

definition prob_fn :: "'b gmm_diag_hmm \<Rightarrow> fl list \<Rightarrow> fl list list" where
  "prob_fn m x =
     map (\<lambda>row. map (\<lambda>l. fl_exp (l - logsumexp row)) row) (logprobs m x)"

text \<open>
  \<open>_single_e_step\<close>.  Reading \<open>smoothed_probs[0]\<close> of an empty sequence is an index
  error.
\<close>

definition run_smoother :: "'b collaborators \<Rightarrow> 'b gmm_diag_hmm \<Rightarrow> fl list list \<Rightarrow> posterior" where
  "run_smoother env m emissions =
     hmm_smoother env (compute_initial_probs env m) (compute_transition_matrices env m)
       (compute_conditional_logliks env m emissions)"

definition single_e_step ::
  "'b collaborators \<Rightarrow> 'b gmm_diag_hmm \<Rightarrow> fl list list \<Rightarrow> error + GMMDiagHMMSuffStats" where
  "single_e_step env m emissions =
     (let post = run_smoother env m emissions
      in case smoothed_probs post of
           [] \<Rightarrow> Inl IndexError
         | initial_probs # _ \<Rightarrow>
             (let trans_probs = compute_transition_probs env
                                  (transition_matrix_value env (base m)) post;
                  prob_denses = map (prob_fn m) emissions;
                  N_t = einsum_tk_tkm_tkm (smoothed_probs post) prob_denses
              in Inr \<lparr>stats_marginal_loglik = marginal_loglik post,
                      stats_initial_probs = initial_probs,
                      stats_trans_probs = trans_probs,
                      N = sum_axis0 add2 N_t,
                      Sx = einsum_tkm_tn_kmn N_t emissions,
                      SxxT = einsum_tkm_tn_tn_kmn N_t emissions emissions\<rparr>))"

text \<open>\<open>e_step\<close>: \<open>vmap\<close> over the batch; an error in one sequence is an error of the call.\<close>

fun e_step ::
  "'b collaborators \<Rightarrow> 'b gmm_diag_hmm \<Rightarrow> fl list list list
     \<Rightarrow> error + GMMDiagHMMSuffStats list" where
  "e_step env m [] = Inr []"
| "e_step env m (emissions # batch) =
     (case single_e_step env m emissions of
        Inl e \<Rightarrow> Inl e
      | Inr s \<Rightarrow> (case e_step env m batch of Inl e \<Rightarrow> Inl e | Inr ss \<Rightarrow> Inr (s # ss)))"

section \<open>The conjugate priors\<close>

text \<open>
  \<open>tfd.Dirichlet(concentration).mode()\<close>: \<open>(c - 1) / (sum c - k)\<close> for \<open>k\<close>
  concentrations, and NaN in every entry unless each concentration exceeds one.
\<close>

definition dirichlet_mode :: "fl list \<Rightarrow> fl list" where
  "dirichlet_mode concentration =
     (let k = Fin (real (length concentration));
          total_concentration = sum_list concentration;
          mode = map (\<lambda>c. (c - Fin 1) / (total_concentration - k)) concentration
      in if list_all (\<lambda>c. Fin 1 < c) concentration then mode
         else map (\<lambda>_. NaN) concentration)"

record NormalInverseGamma =
  nig_loc :: "fl list"
  nig_mean_concentration :: fl
  nig_shape :: fl
  nig_scale :: "fl list"

text \<open>
  Modelled from the spec: \<open>nig_posterior_update\<close> of \<open>ssm_jax.distributions\<close>, which is
  not among the source files.  The posterior concentration is the prior concentration
  plus \<open>N\<close>; the posterior location is the precision-weighted average of the prior
  location and the empirical mean \<open>Sx / N\<close>; the shape grows by \<open>N / 2\<close>; the scale
  absorbs the sum of squared deviations and a cross term between the prior location and
  the empirical mean, weighted by the harmonic combination of the two concentrations;
  with \<open>N = 0\<close> the prior is returned unchanged.
\<close>

definition nig_posterior_update ::
  "NormalInverseGamma \<Rightarrow> fl list \<times> fl list \<times> fl \<Rightarrow> NormalInverseGamma" where
  "nig_posterior_update prior stats =
     (case stats of (Sx_c, SxxT_c, N_c) \<Rightarrow>
        if N_c = Fin 0 then prior
        else
          (let kappa = nig_mean_concentration prior;
               xbar = map (\<lambda>s. s / N_c) Sx_c
           in \<lparr>nig_loc = map2 (\<lambda>mu xb. (kappa * mu + N_c * xb) / (kappa + N_c))
                             (nig_loc prior) xbar,
               nig_mean_concentration = kappa + N_c,
               nig_shape = nig_shape prior + N_c / Fin 2,
               nig_scale =
                 map (\<lambda>(b, mu, xb, sxx).
                        b + Fin (1 / 2) * (sxx - N_c * (xb * xb))
                          + Fin (1 / 2) * (kappa * N_c / (kappa + N_c))
                              * ((xb - mu) * (xb - mu)))
                     (zip (nig_scale prior) (zip (nig_loc prior) (zip xbar SxxT_c)))\<rparr>))"

text \<open>
  Modelled from the spec: \<open>NormalInverseGamma.mode\<close> of \<open>ssm_jax.distributions\<close>, which
  is not among the source files.  The mode is the pair of the variance mode
  \<open>scale / (shape + 1)\<close> and the mean mode, the location.
\<close>

definition nig_mode :: "NormalInverseGamma \<Rightarrow> fl list \<times> fl list" where
  "nig_mode d = (map (\<lambda>b. b / (nig_shape d + Fin 1)) (nig_scale d), nig_loc d)"

section \<open>The M-step\<close>

definition posterior_mode ::
  "fl list \<Rightarrow> fl \<Rightarrow> fl \<Rightarrow> fl list \<Rightarrow> fl list \<times> fl list \<times> fl \<Rightarrow> fl list \<times> fl list" where
  "posterior_mode loc mean_concentration shape scale stats =
     (let nig_prior = \<lparr>nig_loc = loc, nig_mean_concentration = mean_concentration,
                       nig_shape = shape, nig_scale = scale\<rparr>
      in nig_mode (nig_posterior_update nig_prior stats))"

text \<open>
  \<open>_single_m_step\<close> for one state: the mixture weights, then the variance and mean of
  every component (\<open>vmap\<close> over the component axis of the priors and the statistics).
\<close>

definition single_m_step ::
  "'b gmm_diag_hmm \<Rightarrow> fl list list \<Rightarrow> fl list list \<Rightarrow> fl list
     \<Rightarrow> fl list \<times> fl list list \<times> fl list list" where
  "single_m_step m Sx_k SxxT_k N_k =
     (let nu_post = add1 (emission_mixture_weights_concentration m) N_k;
          mixture_weights = dirichlet_mode nu_post;
          modes = map (\<lambda>(loc, mean_concentration, shape, scale, stats).
                         posterior_mode loc mean_concentration shape scale stats)
                    (zip (emission_prior_mean m)
                      (zip (emission_prior_mean_concentration m)
                        (zip (emission_prior_shape m)
                          (zip (emission_prior_scale m)
                            (zip Sx_k (zip SxxT_k N_k))))))
      in (mixture_weights, map fst modes, map snd modes))"

text \<open>\<open>tree_map(partial(jnp.sum, axis=0), batch_posteriors)\<close>\<close>

definition tree_map_sum_axis0 :: "GMMDiagHMMSuffStats list \<Rightarrow> GMMDiagHMMSuffStats" where
  "tree_map_sum_axis0 batch_posteriors =
     \<lparr>stats_marginal_loglik = sum_list (map stats_marginal_loglik batch_posteriors),
      stats_initial_probs = sum_axis0 add1 (map stats_initial_probs batch_posteriors),
      stats_trans_probs = sum_axis0 add2 (map stats_trans_probs batch_posteriors),
      N = sum_axis0 add2 (map N batch_posteriors),
      Sx = sum_axis0 add3 (map Sx batch_posteriors),
      SxxT = sum_axis0 add3 (map SxxT batch_posteriors)\<rparr>"

text \<open>
  \<open>_m_step_emissions\<close>: the statistics are summed over the batch, every state is
  updated (\<open>vmap\<close> over the state axis of the statistics), and the three emission
  parameters of the model are overwritten.
\<close>

definition m_step_emissions ::
  "'b gmm_diag_hmm \<Rightarrow> fl list list list \<Rightarrow> GMMDiagHMMSuffStats list \<Rightarrow> 'b gmm_diag_hmm" where
  "m_step_emissions m batch_emissions batch_posteriors =
     (let stats = tree_map_sum_axis0 batch_posteriors;
          updates = map (\<lambda>(Sx_k, SxxT_k, N_k). single_m_step m Sx_k SxxT_k N_k)
                      (zip (Sx stats) (zip (SxxT stats) (N stats)))
      in m\<lparr>emission_mixture_weights := map fst updates,
            emission_cov_diag_factors := map (fst \<circ> snd) updates,
            emission_means := map (snd \<circ> snd) updates\<rparr>)"

section \<open>The constructor\<close>

text \<open>
  A float hyperparameter is multiplied by an array of ones of the expected shape;
  anything else is kept as it is.  The assertion then reads the attribute \<open>shape\<close>.
\<close>

definition broadcast_float :: "hyper \<Rightarrow> nat list \<Rightarrow> hyper" where
  "broadcast_float h expected =
     (case h of PyFloat x \<Rightarrow> Array (scalar_times x (ones expected)) | _ \<Rightarrow> h)"

definition assert_shape :: "hyper \<Rightarrow> nat list \<Rightarrow> error + ndarray" where
  "assert_shape h expected =
     (case h of
        Array a \<Rightarrow> if arr_shape a = expected then Inr a else Inl AssertionError
      | _ \<Rightarrow> Inl AttributeError)"

definition bind_error :: "error + 'a \<Rightarrow> ('a \<Rightarrow> error + 'c) \<Rightarrow> error + 'c" where
  "bind_error r f = (case r of Inl e \<Rightarrow> Inl e | Inr v \<Rightarrow> f v)"

text \<open>
  \<open>__init__\<close>.  The ranks of \<open>weights\<close> and \<open>emission_cov_diag_factors\<close> are not
  checked by the constructor; the record holds their view as nested lists of the
  documented rank.
\<close>

definition gmm_diag_hmm_init ::
  "'b collaborators \<Rightarrow> ndarray \<Rightarrow> ndarray \<Rightarrow> ndarray \<Rightarrow> ndarray \<Rightarrow> ndarray
     \<Rightarrow> hyper \<Rightarrow> hyper \<Rightarrow> hyper \<Rightarrow> hyper \<Rightarrow> hyper \<Rightarrow> hyper \<Rightarrow> hyper
     \<Rightarrow> error + 'b gmm_diag_hmm" where
  "gmm_diag_hmm_init env initial_probabilities transition_matrix weights means
       cov_diag_factors initial_probs_concentration transition_matrix_concentration
       mixture_weights_concentration prior_mean prior_mean_concentration prior_shape
       prior_scale =
     bind_error
       (standard_hmm_init env initial_probabilities transition_matrix
          initial_probs_concentration transition_matrix_concentration)
       (\<lambda>b. case arr_shape means of
          [num_states, num_components, emission_dim] \<Rightarrow>
            bind_error
              (assert_shape (broadcast_float mixture_weights_concentration [num_components])
                 [num_components])
            (\<lambda>c0. bind_error
              (assert_shape (broadcast_float prior_mean [num_components, emission_dim])
                 [num_components, emission_dim])
            (\<lambda>m0. bind_error
              (assert_shape (broadcast_float prior_mean_concentration [num_components])
                 [num_components])
            (\<lambda>k0. bind_error
              (assert_shape (broadcast_float prior_shape [num_components])
                 [num_components])
            (\<lambda>a0. bind_error
              (assert_shape (broadcast_float prior_scale [num_components, emission_dim])
                 [num_components, emission_dim])
            (\<lambda>b0. Inr \<lparr>base = b,
                        emission_mixture_weights = to_list2 weights,
                        emission_means = to_list3 means,
                        emission_cov_diag_factors = to_list3 cov_diag_factors,
                        emission_mixture_weights_concentration = to_list1 c0,
                        emission_prior_mean = to_list2 m0,
                        emission_prior_mean_concentration = to_list1 k0,
                        emission_prior_shape = to_list1 a0,
                        emission_prior_scale = to_list2 b0\<rparr>)))))
        | _ \<Rightarrow> Inl ValueError)"

section \<open>The EM iteration\<close>







text \<open>
  An array hyperparameter whose shape is not the expected one; a hyperparameter that is
  a float or an array.
\<close>

definition shape_mismatch :: "hyper \<Rightarrow> nat list \<Rightarrow> bool" where
  "shape_mismatch h expected = (case h of Array a \<Rightarrow> arr_shape a \<noteq> expected | _ \<Rightarrow> False)"

definition float_or_array :: "hyper \<Rightarrow> bool" where
  "float_or_array h = (case h of PyObject \<Rightarrow> False | _ \<Rightarrow> True)"

section \<open>Auxiliary notions\<close>

text \<open>The exponential of a log-probability as a real number, zero at minus infinity.\<close>

fun rexp :: "fl \<Rightarrow> real" where
  "rexp (Fin a) = exp a"
| "rexp _ = 0"

definition fin_or_ninf :: "fl \<Rightarrow> bool" where
  "fin_or_ninf l = (is_fin l \<or> l = NInf)"

section \<open>Concrete instances\<close>

text \<open>
  Modelled from the spec: the smoother \<open>hmm_smoother\<close> and the methods of the base class
  \<open>StandardHMM\<close>, which are not among the source files, for a chain with a single
  hidden state.  Forward-backward smoothing of such a chain gives every smoothed
  probability the value one and the sum of the conditional log-likelihoods as marginal
  log-likelihood; the conditional log-likelihood of an emission is the log-density of
  the mixture of the state.
\<close>

definition one_state_collaborators :: "unit collaborators" where
  "one_state_collaborators =
     \<lparr>standard_hmm_init = (\<lambda>_ _ _ _. Inr ()),
      compute_initial_probs = (\<lambda>_. [Fin 1]),
      compute_transition_matrices = (\<lambda>_. [[Fin 1]]),
      compute_conditional_logliks = (\<lambda>m emissions. map (\<lambda>x. map logsumexp (logprobs m x)) emissions),
      hmm_smoother = (\<lambda>_ _ logliks.
         \<lparr>marginal_loglik = sum_list (map sum_list logliks),
          smoothed_probs = map (\<lambda>_. [Fin 1]) logliks\<rparr>),
      transition_matrix_value = (\<lambda>_. [[Fin 1]]),
      compute_transition_probs = (\<lambda>_ post. [[Fin (real (length (smoothed_probs post) - 1))]])\<rparr>"

text \<open>
  The scenario of the specification: one state, one component, emission dimension one,
  prior location 0, mean concentration 1, shape 1, scale 1, and the sequence of three
  observations 1.0.
\<close>

definition scenario_model :: "unit gmm_diag_hmm" where
  "scenario_model =
     \<lparr>base = (),
      emission_mixture_weights = [[Fin 1]],
      emission_means = [[[Fin 0]]],
      emission_cov_diag_factors = [[[Fin 1]]],
      emission_mixture_weights_concentration = [Fin (11 / 10)],
      emission_prior_mean = [[Fin 0]],
      emission_prior_mean_concentration = [Fin 1],
      emission_prior_shape = [Fin 1],
      emission_prior_scale = [[Fin 1]]\<rparr>"

definition scenario_emissions :: "fl list list" where
  "scenario_emissions = [[Fin 1], [Fin 1], [Fin 1]]"


text \<open>One state with two components, the first of mixture weight zero.\<close>

definition two_component_model :: "unit gmm_diag_hmm" where
  "two_component_model =
     \<lparr>base = (),
      emission_mixture_weights = [[Fin 0, Fin 1]],
      emission_means = [[[Fin 0], [Fin 1]]],
      emission_cov_diag_factors = [[[Fin 1], [Fin 2]]],
      emission_mixture_weights_concentration = [Fin 2, Fin 2],
      emission_prior_mean = [[Fin 0], [Fin 0]],
      emission_prior_mean_concentration = [Fin 1, Fin 1],
      emission_prior_shape = [Fin 1, Fin 1],
      emission_prior_scale = [[Fin 1], [Fin 1]]\<rparr>"

text \<open>The statistics of two sequences for the model with two components.\<close>

definition stats_a :: GMMDiagHMMSuffStats where
  "stats_a =
     \<lparr>stats_marginal_loglik = Fin (- 1), stats_initial_probs = [Fin 1],
      stats_trans_probs = [[Fin 0]],
      N = [[Fin 1, Fin 0]], Sx = [[[Fin 1], [Fin 0]]], SxxT = [[[Fin 1], [Fin 0]]]\<rparr>"

definition stats_b :: GMMDiagHMMSuffStats where
  "stats_b =
     \<lparr>stats_marginal_loglik = Fin (- 2), stats_initial_probs = [Fin 1],
      stats_trans_probs = [[Fin 0]],
      N = [[Fin 0, Fin 1]], Sx = [[[Fin 0], [Fin 2]]], SxxT = [[[Fin 0], [Fin 4]]]\<rparr>"

section \<open>Sums along the leading axis\<close>

lemma foldl_plus_sum_list: "foldl (+) (a::fl) xs = a + sum_list xs"
  by (induction xs arbitrary: a) (simp_all add: add.assoc)

lemma foldl_map2_nth:
  "k < length x \<Longrightarrow> \<forall>y\<in>set r. k < length y \<Longrightarrow>
     k < length (foldl (map2 f) x r) \<and> foldl (map2 f) x r ! k = foldl f (x ! k) (map (\<lambda>y. y ! k) r)"
  by (induction r arbitrary: x) simp_all

lemma sum_list_nth_sum: "sum_list (xs :: fl list) = (\<Sum>t<length xs. xs ! t)"
  by (metis atLeast_upt interv_sum_list_conv_sum_set_nat map_nth)

lemma sum_axis0_map2_nth:
  assumes "xs \<noteq> []" "\<forall>x\<in>set xs. k < length x"
  shows "sum_axis0 (map2 f) xs ! k = sum_axis0 f (map (\<lambda>y. y ! k) xs)"
    and "k < length (sum_axis0 (map2 f) xs)"
proof -
  obtain x r where xs: "xs = x # r" using assms(1) by (cases xs) auto
  show "sum_axis0 (map2 f) xs ! k = sum_axis0 f (map (\<lambda>y. y ! k) xs)"
    using assms(2) by (simp add: xs sum_axis0_def foldl_map2_nth)
  show "k < length (sum_axis0 (map2 f) xs)"
    using assms(2) by (simp add: xs sum_axis0_def foldl_map2_nth)
qed

lemma sum_axis0_add1_nth:
  assumes "xs \<noteq> []" "\<forall>x\<in>set xs. i < length x"
  shows "sum_axis0 add1 xs ! i = (\<Sum>t<length xs. xs ! t ! i)"
proof -
  obtain x r where xs: "xs = x # r" using assms(1) by (cases xs) auto
  have "sum_axis0 add1 xs ! i = foldl (+) (x ! i) (map (\<lambda>y. y ! i) r)"
    using assms(2) by (simp add: xs sum_axis0_def add1_def foldl_map2_nth)
  also have "\<dots> = sum_list (map (\<lambda>y. y ! i) xs)"
    by (simp add: xs foldl_plus_sum_list)
  also have "\<dots> = (\<Sum>t<length xs. xs ! t ! i)"
    by (simp add: sum_list_nth_sum)
  finally show ?thesis .
qed

lemma sum_axis0_add2_nth:
  assumes "xs \<noteq> []" "\<forall>x\<in>set xs. k < length x \<and> c < length (x ! k)"
  shows "sum_axis0 add2 xs ! k ! c = (\<Sum>t<length xs. xs ! t ! k ! c)"
proof -
  have "sum_axis0 add2 xs ! k = sum_axis0 add1 (map (\<lambda>y. y ! k) xs)"
    unfolding add2_def using assms by (intro sum_axis0_map2_nth) auto
  moreover have "sum_axis0 add1 (map (\<lambda>y. y ! k) xs) ! c
                   = (\<Sum>t<length (map (\<lambda>y. y ! k) xs). map (\<lambda>y. y ! k) xs ! t ! c)"
    using assms by (intro sum_axis0_add1_nth) auto
  ultimately show ?thesis by simp
qed

lemma sum_axis0_add3_nth:
  assumes "xs \<noteq> []"
    "\<forall>x\<in>set xs. k < length x \<and> c < length (x ! k) \<and> n < length (x ! k ! c)"
  shows "sum_axis0 add3 xs ! k ! c ! n = (\<Sum>t<length xs. xs ! t ! k ! c ! n)"
proof -
  have "sum_axis0 add3 xs ! k = sum_axis0 add2 (map (\<lambda>y. y ! k) xs)"
    unfolding add3_def using assms by (intro sum_axis0_map2_nth) auto
  moreover have "sum_axis0 add2 (map (\<lambda>y. y ! k) xs) ! c ! n
                   = (\<Sum>t<length (map (\<lambda>y. y ! k) xs). map (\<lambda>y. y ! k) xs ! t ! c ! n)"
    using assms by (intro sum_axis0_add2_nth) auto
  ultimately show ?thesis by simp
qed

lemma einsum_tk_tkm_tkm_nth:
  assumes "t < length a" "t < length b" "k < length (a ! t)" "k < length (b ! t)"
    "c < length (b ! t ! k)"
  shows "einsum_tk_tkm_tkm a b ! t ! k ! c = a ! t ! k * b ! t ! k ! c"
  using assms by (simp add: einsum_tk_tkm_tkm_def)

lemma einsum_tk_tkm_tkm_length:
  "length (einsum_tk_tkm_tkm a b) = min (length a) (length b)"
  "t < length a \<Longrightarrow> t < length b \<Longrightarrow>
     length (einsum_tk_tkm_tkm a b ! t) = min (length (a ! t)) (length (b ! t))"
  "t < length a \<Longrightarrow> t < length b \<Longrightarrow> k < length (a ! t) \<Longrightarrow> k < length (b ! t) \<Longrightarrow>
     length (einsum_tk_tkm_tkm a b ! t ! k) = length (b ! t ! k)"
  by (simp_all add: einsum_tk_tkm_tkm_def)

lemma map2_assoc:
  assumes "\<And>a b c. f (f a b) c = f a (f b c)"
  shows "map2 f (map2 f x y) z = map2 f x (map2 f y z)"
proof (induction x arbitrary: y z)
  case Nil
  then show ?case by simp
next
  case (Cons a x)
  then show ?case by (cases y; cases z) (simp_all add: assms)
qed

lemma add1_assoc: "add1 (add1 x y) z = add1 x (add1 y z)"
  unfolding add1_def by (rule map2_assoc) (rule add.assoc)

lemma add2_assoc: "add2 (add2 x y) z = add2 x (add2 y z)"
  unfolding add2_def by (rule map2_assoc) (rule add1_assoc)

lemma add3_assoc: "add3 (add3 x y) z = add3 x (add3 y z)"
  unfolding add3_def by (rule map2_assoc) (rule add2_assoc)

lemma foldl_assoc:
  assumes "\<And>a b c. f (f a b) c = f a (f b c)"
  shows "foldl f (f a y) r = f a (foldl f y r)"
  by (induction r arbitrary: y) (simp_all add: assms)

lemma sum_axis0_append:
  assumes "\<And>a b c. f (f a b) c = f a (f b c)" "xs \<noteq> []" "ys \<noteq> []"
  shows "sum_axis0 f (xs @ ys) = f (sum_axis0 f xs) (sum_axis0 f ys)"
proof -
  obtain x r where xs: "xs = x # r" using assms(2) by (cases xs) auto
  obtain y r' where ys: "ys = y # r'" using assms(3) by (cases ys) auto
  show ?thesis
    by (simp add: xs ys sum_axis0_def foldl_assoc[of f, OF assms(1)])
qed

lemma tree_map_sum_axis0_single: "tree_map_sum_axis0 [s] = s"
  by (simp add: tree_map_sum_axis0_def sum_axis0_def)

section \<open>Finite elements\<close>

lemma is_fin_iff: "is_fin x \<longleftrightarrow> (\<exists>a. x = Fin a)"
  by (cases x) simp_all

lemma fin_minus [simp]: "Fin a - Fin b = Fin (a - b)"
  by (simp add: minus_fl_def)

lemma ninf_minus_fin [simp]: "NInf - Fin b = NInf"
  by (simp add: minus_fl_def)

lemma sum_list_Fin: "sum_list (map Fin rs) = Fin (sum_list rs)"
  by (induction rs) (simp_all add: zero_fl_def)

lemma sum_list_map_Fin: "sum_list (map (\<lambda>x. Fin (f x)) xs) = Fin (sum_list (map f xs))"
  by (induction xs) (simp_all add: zero_fl_def)

lemma is_fin_sum_list: "list_all is_fin xs \<Longrightarrow> is_fin (sum_list xs)"
  by (induction xs) (auto simp: zero_fl_def is_fin_iff)

lemma list_all_is_fin_map: "list_all is_fin xs \<Longrightarrow> xs = map Fin (map the_fin xs)"
  by (induction xs) (auto simp: is_fin_iff)

lemma add1_Fin: "add1 (map Fin xs) (map Fin ys) = map Fin (map2 (+) xs ys)"
  unfolding add1_def
proof (induction xs arbitrary: ys)
  case Nil
  then show ?case by simp
next
  case (Cons a xs)
  then show ?case by (cases ys) simp_all
qed

lemma is_fin_minus: "is_fin a \<Longrightarrow> is_fin b \<Longrightarrow> is_fin (a - b)"
  by (auto simp: is_fin_iff)

lemma is_fin_divide: "is_fin a \<Longrightarrow> is_fin b \<Longrightarrow> b \<noteq> Fin 0 \<Longrightarrow> is_fin (a / b)"
  by (auto simp: is_fin_iff)

lemma is_fin_log_abs: "is_fin s \<Longrightarrow> s \<noteq> Fin 0 \<Longrightarrow> is_fin (fl_log \<bar>s\<bar>)"
  by (auto simp: is_fin_iff)

section \<open>Responsibilities\<close>

lemma exp_shift: "fin_or_ninf l \<Longrightarrow> fl_exp (l - Fin a) = Fin (rexp l * exp (- a))"
  by (cases l) (simp_all add: fin_or_ninf_def exp_diff exp_minus divide_inverse)

lemma rexp_nonneg: "0 \<le> rexp l"
  by (cases l) simp_all

lemma rexp_sum_pos:
  assumes "\<exists>l\<in>set ls. is_fin l"
  shows "0 < sum_list (map rexp ls)"
proof -
  obtain l where l: "l \<in> set ls" "is_fin l" using assms by blast
  from l(2) have "0 < rexp l" by (cases l) simp_all
  moreover have "rexp l \<le> sum_list (map rexp ls)"
    using l(1) by (intro member_le_sum_list) (auto simp: rexp_nonneg)
  ultimately show ?thesis by linarith
qed

lemma logsumexp_finite:
  assumes "list_all fin_or_ninf ls" "\<exists>l\<in>set ls. is_fin l"
  shows "logsumexp ls = Fin (ln (sum_list (map rexp ls)))"
proof -
  define S where "S = sum_list (map rexp ls)"
  have S: "0 < S" unfolding S_def by (rule rexp_sum_pos[OF assms(2)])
  obtain a where a: "(if is_fin (jnp_max ls) then jnp_max ls else Fin 0) = Fin a"
    by (cases "jnp_max ls") auto
  have "map (\<lambda>x. fl_exp (x - Fin a)) ls = map (\<lambda>x. Fin (rexp x * exp (- a))) ls"
    using assms(1) by (auto simp: list_all_iff exp_shift)
  then have "sum_list (map (\<lambda>x. fl_exp (x - Fin a)) ls)
               = sum_list (map (\<lambda>x. Fin (rexp x * exp (- a))) ls)"
    by (simp only:)
  also have "\<dots> = Fin (S * exp (- a))"
    by (simp add: sum_list_map_Fin S_def sum_list_mult_const)
  finally have "sum_list (map (\<lambda>x. fl_exp (x - Fin a)) ls) = Fin (S * exp (- a))" .
  moreover have "0 < S * exp (- a)" using S by simp
  moreover have "ln (S * exp (- a)) + a = ln S"
    using S by (simp add: ln_mult)
  ultimately have "fl_log (sum_list (map (\<lambda>x. fl_exp (x - Fin a)) ls)) + Fin a = Fin (ln S)"
    by simp
  then show ?thesis
    unfolding logsumexp_def Let_def a S_def .
qed

lemma softmax_row:
  assumes "list_all fin_or_ninf ls" "\<exists>l\<in>set ls. is_fin l"
  shows "map (\<lambda>l. fl_exp (l - logsumexp ls)) ls
           = map (\<lambda>l. Fin (rexp l / sum_list (map rexp ls))) ls"
proof -
  have S: "0 < sum_list (map rexp ls)" by (rule rexp_sum_pos[OF assms(2)])
  show ?thesis
    using assms(1) S
    by (auto simp: logsumexp_finite[OF assms] list_all_iff exp_shift exp_minus exp_ln divide_inverse)
qed

lemma softmax_row_sum:
  assumes "list_all fin_or_ninf ls" "\<exists>l\<in>set ls. is_fin l"
  shows "sum_list (map (\<lambda>l. fl_exp (l - logsumexp ls)) ls) = Fin 1"
proof -
  have S: "0 < sum_list (map rexp ls)" by (rule rexp_sum_pos[OF assms(2)])
  have "sum_list (map (\<lambda>l. rexp l * inverse (sum_list (map rexp ls))) ls) = 1"
    using S by (simp add: sum_list_mult_const)
  then have "sum_list (map (\<lambda>l. rexp l / sum_list (map rexp ls)) ls) = 1"
    by (simp add: divide_inverse)
  then show ?thesis
    by (simp add: softmax_row[OF assms] sum_list_map_Fin)
qed

lemma is_fin_std_normal: "is_fin z \<Longrightarrow> is_fin (std_normal_log_prob z)"
  by (auto simp: is_fin_iff std_normal_log_prob_def)

lemma mvn_diag_log_prob_finite:
  assumes "list_all is_fin x" "list_all is_fin mu"
    "list_all (\<lambda>s. is_fin s \<and> Fin 0 < s) sigma"
  shows "is_fin (mvn_diag_log_prob mu sigma x)"
proof -
  have "is_fin (std_normal_log_prob ((xd - md) / sd))"
    if "(xd, md, sd) \<in> set (zip x (zip mu sigma))" for xd md sd
  proof -
    have "xd \<in> set x" "md \<in> set mu" "sd \<in> set sigma"
      using that by (auto dest: set_zip_leftD set_zip_rightD)
    then have "is_fin xd" "is_fin md" "is_fin sd" "sd \<noteq> Fin 0"
      using assms by (auto simp: list_all_iff)
    then show ?thesis
      by (intro is_fin_std_normal is_fin_divide is_fin_minus)
  qed
  then have 1: "is_fin (sum_list (map (\<lambda>(xd, md, sd). std_normal_log_prob ((xd - md) / sd))
                   (zip x (zip mu sigma))))"
    by (intro is_fin_sum_list) (auto simp: list_all_iff)
  have 2: "is_fin (sum_list (map (\<lambda>sd. fl_log \<bar>sd\<bar>) sigma))"
    using assms(3) by (intro is_fin_sum_list) (auto simp: list_all_iff intro!: is_fin_log_abs)
  show ?thesis
    unfolding mvn_diag_log_prob_def by (intro is_fin_minus 1 2)
qed

lemma add_log_weight:
  assumes "is_fin lp" "is_fin w" "Fin 0 \<le> w"
  shows "fin_or_ninf (lp + fl_log w)"
    and "is_fin (lp + fl_log w) \<longleftrightarrow> Fin 0 < w"
    and "w = Fin 0 \<Longrightarrow> lp + fl_log w = NInf"
  using assms by (auto simp: is_fin_iff fin_or_ninf_def split: if_splits)

lemma logprobs_row:
  assumes "mixture_shape m K M" "k < K"
  shows "logprobs m x ! k =
           map (\<lambda>c. mvn_diag_log_prob (emission_means m ! k ! c)
                       (emission_cov_diag_factors m ! k ! c) x
                     + fl_log (emission_mixture_weights m ! k ! c)) [0..<M]"
proof -
  have len: "length (emission_means m ! k) = M" "length (emission_cov_diag_factors m ! k) = M"
    "length (emission_mixture_weights m ! k) = M"
    using assms by (simp_all add: mixture_shape_def list_all_length)
  show ?thesis
    using assms len
    by (auto simp: logprobs_def mixture_shape_def intro!: nth_equalityI)
qed

lemma logprobs_row_ok:
  assumes shape: "mixture_shape m K M" and ok: "emission_params_ok m"
    and x: "list_all is_fin x" and k: "k < K"
  shows "list_all fin_or_ninf (logprobs m x ! k)"
    and "c < M \<Longrightarrow> is_fin (logprobs m x ! k ! c) \<longleftrightarrow> Fin 0 < emission_mixture_weights m ! k ! c"
    and "c < M \<Longrightarrow> emission_mixture_weights m ! k ! c = Fin 0 \<Longrightarrow> logprobs m x ! k ! c = NInf"
proof -
  have len: "length (emission_means m) = K" "length (emission_cov_diag_factors m) = K"
    "length (emission_mixture_weights m) = K"
    "length (emission_means m ! k) = M" "length (emission_cov_diag_factors m ! k) = M"
    "length (emission_mixture_weights m ! k) = M"
    using shape k by (simp_all add: mixture_shape_def list_all_length)
  have entry: "is_fin (mvn_diag_log_prob (emission_means m ! k ! c)
                       (emission_cov_diag_factors m ! k ! c) x)"
     "is_fin (emission_mixture_weights m ! k ! c)" "Fin 0 \<le> emission_mixture_weights m ! k ! c"
    if "c < M" for c
  proof -
    have "list_all is_fin (emission_means m ! k ! c)"
      "list_all (\<lambda>s. is_fin s \<and> Fin 0 < s) (emission_cov_diag_factors m ! k ! c)"
      using ok len k that by (simp_all add: emission_params_ok_def list_all_length)
    then show "is_fin (mvn_diag_log_prob (emission_means m ! k ! c)
                       (emission_cov_diag_factors m ! k ! c) x)"
      using x by (intro mvn_diag_log_prob_finite)
    show "is_fin (emission_mixture_weights m ! k ! c)" "Fin 0 \<le> emission_mixture_weights m ! k ! c"
      using ok len k that by (simp_all add: emission_params_ok_def list_all_length)
  qed
  show "list_all fin_or_ninf (logprobs m x ! k)"
    using entry by (simp add: logprobs_row[OF shape k] list_all_length add_log_weight(1))
  show "is_fin (logprobs m x ! k ! c) \<longleftrightarrow> Fin 0 < emission_mixture_weights m ! k ! c" if "c < M"
    using entry[OF that] that by (simp add: logprobs_row[OF shape k] add_log_weight(2))
  show "logprobs m x ! k ! c = NInf" if "c < M" "emission_mixture_weights m ! k ! c = Fin 0"
    using add_log_weight(3)[OF entry[OF that(1)] that(2)] that
    by (simp add: logprobs_row[OF shape k])
qed

lemma prob_fn_shape:
  assumes "mixture_shape m K M"
  shows "length (prob_fn m x) = K" and "k < K \<Longrightarrow> length (prob_fn m x ! k) = M"
proof -
  show "length (prob_fn m x) = K"
    using assms by (simp add: prob_fn_def logprobs_def mixture_shape_def)
  assume k: "k < K"
  then show "length (prob_fn m x ! k) = M"
    using assms
    by (simp add: prob_fn_def logprobs_def mixture_shape_def list_all_length)
qed

lemma prob_fn_row:
  assumes "mixture_shape m K M" "k < K"
  shows "prob_fn m x ! k
           = map (\<lambda>l. fl_exp (l - logsumexp (logprobs m x ! k))) (logprobs m x ! k)"
  using assms by (simp add: prob_fn_def logprobs_def mixture_shape_def)

lemma positive_weight_finite_logprob:
  assumes shape: "mixture_shape m K M" and ok: "emission_params_ok m"
    and x: "list_all is_fin x" and k: "k < K"
    and pos: "\<exists>w\<in>set (emission_mixture_weights m ! k). Fin 0 < w"
  shows "\<exists>l\<in>set (logprobs m x ! k). is_fin l"
proof -
  have len: "length (emission_mixture_weights m ! k) = M"
    using shape k by (simp add: mixture_shape_def list_all_length)
  obtain c where c: "c < M" "Fin 0 < emission_mixture_weights m ! k ! c"
    using pos len by (auto simp: in_set_conv_nth)
  have "is_fin (logprobs m x ! k ! c)"
    using logprobs_row_ok(2)[OF shape ok x k c(1)] c(2) by simp
  moreover have "length (logprobs m x ! k) = M"
    by (simp add: logprobs_row[OF shape k])
  ultimately show ?thesis using c(1) by (metis nth_mem)
qed

lemma zero_weight_responsibility:
  assumes shape: "mixture_shape m K M" and ok: "emission_params_ok m"
    and x: "list_all is_fin x" and k: "k < K" and c: "c < M"
    and pos: "\<exists>w\<in>set (emission_mixture_weights m ! k). Fin 0 < w"
    and zero: "emission_mixture_weights m ! k ! c = Fin 0"
  shows "prob_fn m x ! k ! c = Fin 0"
proof -
  have len: "length (logprobs m x ! k) = M"
    by (simp add: logprobs_row[OF shape k])
  have ninf: "logprobs m x ! k ! c = NInf"
    by (rule logprobs_row_ok(3)[OF shape ok x k c zero])
  have "rexp (logprobs m x ! k ! c) = 0" by (simp add: ninf)
  then show ?thesis
    using softmax_row[OF logprobs_row_ok(1)[OF shape ok x k]
          positive_weight_finite_logprob[OF shape ok x k pos]] len c
    by (simp add: prob_fn_row[OF shape k])
qed

lemma prob_fn_single_component:
  assumes "emission_means m = [[mu]]" "emission_cov_diag_factors m = [[sigma]]"
    "emission_mixture_weights m = [[w]]"
    and "list_all is_fin mu" "list_all (\<lambda>s. is_fin s \<and> Fin 0 < s) sigma"
    and "is_fin w" "Fin 0 < w" "list_all is_fin x"
  shows "prob_fn m x = [[Fin 1]]"
proof -
  have shape: "mixture_shape m 1 1" using assms(1-3) by (simp add: mixture_shape_def)
  have ok: "emission_params_ok m"
    using assms by (auto simp: emission_params_ok_def is_fin_iff)
  have len: "length (prob_fn m x) = 1" "length (prob_fn m x ! 0) = 1"
    using prob_fn_shape[OF shape] by simp_all
  have "sum_list (prob_fn m x ! 0) = Fin 1"
    using softmax_row_sum[OF logprobs_row_ok(1)[OF shape ok assms(8)]
            positive_weight_finite_logprob[OF shape ok assms(8)], of 0] assms(3,7)
    by (simp add: prob_fn_row[OF shape])
  moreover obtain p where "prob_fn m x = [[p]]"
    using len by (auto simp: length_Suc_conv)
  ultimately show ?thesis by simp
qed

section \<open>The statistics of one sequence and of a batch\<close>

lemma single_e_step_sums:
  assumes sp: "sp = smoothed_probs (run_smoother env m emissions)"
    and ne: "emissions \<noteq> []"
    and T: "length sp = length emissions"
    and spK: "\<forall>row\<in>set sp. length row = K"
    and shape: "mixture_shape m K M"
    and D: "\<forall>e\<in>set emissions. length e = D"
    and k: "k < K" and c: "c < M" and n: "n < D"
  shows "\<exists>s. single_e_step env m emissions = Inr s
       \<and> N s ! k ! c = (\<Sum>t<length emissions. sp ! t ! k * prob_fn m (emissions ! t) ! k ! c)
       \<and> Sx s ! k ! c ! n =
           (\<Sum>t<length emissions.
              sp ! t ! k * prob_fn m (emissions ! t) ! k ! c * emissions ! t ! n)
       \<and> SxxT s ! k ! c ! n =
           (\<Sum>t<length emissions.
              sp ! t ! k * prob_fn m (emissions ! t) ! k ! c * emissions ! t ! n
                * emissions ! t ! n)"
proof -
  define pd where "pd = map (prob_fn m) emissions"
  define Nt where "Nt = einsum_tk_tkm_tkm sp pd"
  have spne: "sp \<noteq> []" using ne T by auto
  then obtain s where step: "single_e_step env m emissions = Inr s"
    unfolding sp by (cases "smoothed_probs (run_smoother env m emissions)")
      (simp_all add: single_e_step_def Let_def)
  have fields: "N s = sum_axis0 add2 Nt" "Sx s = einsum_tkm_tn_kmn Nt emissions"
    "SxxT s = einsum_tkm_tn_tn_kmn Nt emissions emissions"
    using step sp by (auto simp: single_e_step_def Let_def Nt_def pd_def split: list.splits)
  have lenNt: "length Nt = length emissions"
    by (simp add: Nt_def pd_def einsum_tk_tkm_tkm_length T)
  have Nt_nth: "Nt ! t ! k ! c = sp ! t ! k * prob_fn m (emissions ! t) ! k ! c"
    and Nt_len: "k < length (Nt ! t)" "c < length (Nt ! t ! k)"
    if "t < length emissions" for t
  proof -
    have a: "t < length sp" "t < length pd" using that T by (simp_all add: pd_def)
    have b: "k < length (sp ! t)" using spK a(1) k by simp
    have c1: "k < length (pd ! t)" using that k by (simp add: pd_def prob_fn_shape[OF shape])
    have d: "c < length (pd ! t ! k)" using that k c by (simp add: pd_def prob_fn_shape[OF shape])
    show "Nt ! t ! k ! c = sp ! t ! k * prob_fn m (emissions ! t) ! k ! c"
      using einsum_tk_tkm_tkm_nth[OF a b c1 d] that by (simp add: Nt_def pd_def)
    show "k < length (Nt ! t)" using a b c1 by (simp add: Nt_def einsum_tk_tkm_tkm_length)
    show "c < length (Nt ! t ! k)" using a b c1 d by (simp add: Nt_def einsum_tk_tkm_tkm_length)
  qed
  have Ntne: "Nt \<noteq> []" using lenNt ne by auto
  have all: "\<forall>x\<in>set Nt. k < length x \<and> c < length (x ! k)"
    using Nt_len lenNt by (auto simp: in_set_conv_nth)
  have 1: "N s ! k ! c = (\<Sum>t<length emissions. sp ! t ! k * prob_fn m (emissions ! t) ! k ! c)"
    using sum_axis0_add2_nth[OF Ntne all] by (simp add: fields lenNt Nt_nth)
  define Cx where "Cx = map2 (\<lambda>a_t b_t. map (map (\<lambda>a_tkm. map (\<lambda>b_tn. a_tkm * b_tn) b_t)) a_t) Nt emissions"
  have lenCx: "length Cx = length emissions" by (simp add: Cx_def lenNt)
  have Cx_nth: "Cx ! t ! k ! c ! n = Nt ! t ! k ! c * emissions ! t ! n"
    and Cx_len: "k < length (Cx ! t) \<and> c < length (Cx ! t ! k) \<and> n < length (Cx ! t ! k ! c)"
    if "t < length emissions" for t
    using that Nt_len[OF that] lenNt D n by (simp_all add: Cx_def)
  have Cxne: "Cx \<noteq> []" using lenCx lenNt Ntne by auto
  have allx: "\<forall>x\<in>set Cx. k < length x \<and> c < length (x ! k) \<and> n < length (x ! k ! c)"
    using Cx_len lenCx by (auto simp: in_set_conv_nth)
  have 2: "Sx s ! k ! c ! n =
           (\<Sum>t<length emissions.
              sp ! t ! k * prob_fn m (emissions ! t) ! k ! c * emissions ! t ! n)"
    using sum_axis0_add3_nth[OF Cxne allx]
    by (simp add: fields einsum_tkm_tn_kmn_def Cx_def[symmetric] lenCx Cx_nth Nt_nth)
  define Cxx where "Cxx = map2 (\<lambda>a_t (b_t, c_t).
                map (map (\<lambda>a_tkm. map2 (\<lambda>b_tn c_tn. a_tkm * b_tn * c_tn) b_t c_t)) a_t)
             Nt (zip emissions emissions)"
  have lenCxx: "length Cxx = length emissions" by (simp add: Cxx_def lenNt)
  have Cxx_nth: "Cxx ! t ! k ! c ! n = Nt ! t ! k ! c * emissions ! t ! n * emissions ! t ! n"
    and Cxx_len: "k < length (Cxx ! t) \<and> c < length (Cxx ! t ! k) \<and> n < length (Cxx ! t ! k ! c)"
    if "t < length emissions" for t
    using that Nt_len[OF that] lenNt D n by (simp_all add: Cxx_def)
  have Cxxne: "Cxx \<noteq> []" using lenCxx lenNt Ntne by auto
  have allxx: "\<forall>x\<in>set Cxx. k < length x \<and> c < length (x ! k) \<and> n < length (x ! k ! c)"
    using Cxx_len lenCxx by (auto simp: in_set_conv_nth)
  have 3: "SxxT s ! k ! c ! n =
           (\<Sum>t<length emissions.
              sp ! t ! k * prob_fn m (emissions ! t) ! k ! c * emissions ! t ! n
                * emissions ! t ! n)"
    using sum_axis0_add3_nth[OF Cxxne allxx]
    by (simp add: fields einsum_tkm_tn_tn_kmn_def Cxx_def[symmetric] lenCxx Cxx_nth Nt_nth)
  show ?thesis using step 1 2 3 by simp
qed

lemma e_step_append:
  "e_step env m (A @ B) =
     (case e_step env m A of
        Inl e \<Rightarrow> Inl e
      | Inr sa \<Rightarrow> (case e_step env m B of Inl e \<Rightarrow> Inl e | Inr sb \<Rightarrow> Inr (sa @ sb)))"
  by (induction A) (simp_all split: sum.splits)

lemma e_step_pointwise:
  "e_step env m A = Inr sa \<longleftrightarrow> map (single_e_step env m) A = map Inr sa"
proof (induction A arbitrary: sa)
  case Nil
  then show ?case by auto
next
  case (Cons a A)
  show ?case
  proof (cases sa)
    case Nil
    then show ?thesis by (simp split: sum.splits)
  next
    case (Cons s ss)
    show ?thesis
      using Cons.IH[of ss] by (auto simp: Cons split: sum.splits)
  qed
qed

lemma single_e_step_returns:
  "smoothed_probs (run_smoother env m emissions) \<noteq> [] \<Longrightarrow> \<exists>s. single_e_step env m emissions = Inr s"
  by (cases "smoothed_probs (run_smoother env m emissions)")
     (simp_all add: single_e_step_def Let_def)

lemma e_step_returns:
  "\<forall>e\<in>set A. smoothed_probs (run_smoother env m e) \<noteq> [] \<Longrightarrow> \<exists>sa. e_step env m A = Inr sa"
proof (induction A)
  case Nil
  then show ?case by simp
next
  case (Cons a A)
  then obtain sa where "e_step env m A = Inr sa" by auto
  moreover obtain s where "single_e_step env m a = Inr s"
    using single_e_step_returns[of env m a] Cons.prems by auto
  ultimately show ?case by simp
qed

lemma e_step_length: "e_step env m A = Inr sa \<Longrightarrow> length sa = length A"
  using e_step_pointwise[of env m A sa] by (metis length_map)

lemma smoothed_one_state:
  "smoothed_probs (run_smoother one_state_collaborators m emissions) = map (\<lambda>_. [Fin 1]) emissions"
  by (simp add: run_smoother_def one_state_collaborators_def)

lemma unit_rows:
  assumes "length sp = 3" "\<forall>row\<in>set sp. length row = 1 \<and> sum_list row = Fin 1"
  shows "sp = [[Fin 1], [Fin 1], [Fin 1]]"
proof -
  have row: "r = [Fin 1]" if "r \<in> set sp" for r
  proof -
    from assms(2) that have "length r = 1" "sum_list r = Fin 1" by blast+
    then obtain p where "r = [p]" by (auto simp: length_Suc_conv)
    then show ?thesis using \<open>sum_list r = Fin 1\<close> by simp
  qed
  obtain a b c where "sp = [a, b, c]"
    using assms(1) by (auto simp: length_Suc_conv numeral_3_eq_3)
  then show ?thesis using row by simp
qed

section \<open>The updates of the M-step\<close>

lemma single_m_step_weights:
  "fst (single_m_step m Sx_k SxxT_k N_k)
     = dirichlet_mode (add1 (emission_mixture_weights_concentration m) N_k)"
  by (simp add: single_m_step_def Let_def)

lemma m_step_weights_row:
  assumes "st = tree_map_sum_axis0 bp"
    and "length (Sx st) = length (N st)" "length (SxxT st) = length (N st)"
    and "k < length (N st)"
  shows "emission_mixture_weights (m_step_emissions m be bp) ! k
           = dirichlet_mode (add1 (emission_mixture_weights_concentration m) (N st ! k))"
  using assms
  by (simp add: m_step_emissions_def Let_def single_m_step_weights)

lemma m_step_modes_entry:
  assumes "st = tree_map_sum_axis0 bp"
    and "length (Sx st) = length (N st)" "length (SxxT st) = length (N st)"
    and "k < length (N st)"
    and "length (emission_prior_mean m) = M" "length (emission_prior_mean_concentration m) = M"
    and "length (emission_prior_shape m) = M" "length (emission_prior_scale m) = M"
    and "length (Sx st ! k) = M" "length (SxxT st ! k) = M" "length (N st ! k) = M"
    and "c < M"
  shows "(emission_cov_diag_factors (m_step_emissions m be bp) ! k ! c,
          emission_means (m_step_emissions m be bp) ! k ! c)
           = posterior_mode (emission_prior_mean m ! c) (emission_prior_mean_concentration m ! c)
               (emission_prior_shape m ! c) (emission_prior_scale m ! c)
               (Sx st ! k ! c, SxxT st ! k ! c, N st ! k ! c)"
  using assms
  by (simp add: m_step_emissions_def Let_def single_m_step_def)

lemma sum_list_pos_real:
  fixes xs :: "real list"
  assumes "xs \<noteq> []" "\<forall>x\<in>set xs. 0 < x"
  shows "0 < sum_list xs"
  using assms by (induction xs) (auto intro: add_pos_nonneg sum_list_nonneg less_imp_le)

lemma dirichlet_mode_real:
  fixes as :: "real list"
  assumes "as \<noteq> []" "\<forall>a\<in>set as. 1 < a"
  shows "dirichlet_mode (map Fin as)
           = map (\<lambda>a. Fin ((a - 1) / (sum_list as - real (length as)))) as"
    and "0 < sum_list as - real (length as)"
proof -
  have "sum_list (map (\<lambda>a. a - 1) as) = sum_list as - real (length as)"
    by (induction as) simp_all
  moreover have "0 < sum_list (map (\<lambda>a. a - 1) as)"
    using assms by (intro sum_list_pos_real) auto
  ultimately show pos: "0 < sum_list as - real (length as)" by simp
  have all: "list_all (\<lambda>c. Fin 1 < c) (map Fin as)"
    using assms(2) by (simp add: list_all_iff)
  show "dirichlet_mode (map Fin as)
           = map (\<lambda>a. Fin ((a - 1) / (sum_list as - real (length as)))) as"
    using pos all by (simp add: dirichlet_mode_def Let_def sum_list_Fin)
qed

lemma dirichlet_mode_simplex:
  fixes as :: "real list"
  assumes "as \<noteq> []" "\<forall>a\<in>set as. 1 < a"
  shows "list_all (\<lambda>w. is_fin w \<and> Fin 0 \<le> w) (dirichlet_mode (map Fin as))"
    and "sum_list (dirichlet_mode (map Fin as)) = Fin 1"
proof -
  define d where "d = sum_list as - real (length as)"
  have pos: "0 < d" unfolding d_def by (rule dirichlet_mode_real(2)[OF assms])
  have eq: "dirichlet_mode (map Fin as) = map (\<lambda>a. Fin ((a - 1) / d)) as"
    unfolding d_def by (rule dirichlet_mode_real(1)[OF assms])
  show "list_all (\<lambda>w. is_fin w \<and> Fin 0 \<le> w) (dirichlet_mode (map Fin as))"
    using assms(2) pos by (auto simp: eq list_all_iff)
  have "sum_list (map (\<lambda>a. (a - 1) * inverse d) as) = sum_list (map (\<lambda>a. a - 1) as) * inverse d"
    by (simp add: sum_list_mult_const)
  also have "sum_list (map (\<lambda>a. a - 1) as) = d"
    unfolding d_def by (induction as) simp_all
  finally have "sum_list (map (\<lambda>a. (a - 1) / d) as) = 1"
    using pos by (simp add: divide_inverse)
  then show "sum_list (dirichlet_mode (map Fin as)) = Fin 1"
    by (simp add: eq sum_list_map_Fin)
qed

lemma posterior_mode_zero_count:
  "posterior_mode loc mean_concentration shape0 scale (Sx_c, SxxT_c, Fin 0)
     = (map (\<lambda>b. b / (shape0 + Fin 1)) scale, loc)"
  by (simp add: posterior_mode_def nig_posterior_update_def nig_mode_def)

section \<open>The checks of the constructor\<close>

lemma check_hyper:
  assumes "float_or_array h"
  shows "assert_shape (broadcast_float h expected) expected
           = (if shape_mismatch h expected then Inl AssertionError
              else Inr (case h of PyFloat x \<Rightarrow> scalar_times x (ones expected) | Array a \<Rightarrow> a))"
  using assms
  by (cases h)
     (simp_all add: assert_shape_def broadcast_float_def shape_mismatch_def float_or_array_def
        scalar_times_def ones_def)

lemma to_list1_length: "arr_shape a = [n] \<Longrightarrow> length (to_list1 a) = n"
  by (simp add: to_list1_def)

lemma to_list2_shape:
  "arr_shape a = [r, c] \<Longrightarrow> length (to_list2 a) = r \<and> list_all (\<lambda>row. length row = c) (to_list2 a)"
  by (simp add: to_list2_def list_all_iff)

lemma checked_shape:
  assumes "float_or_array h" "\<not> shape_mismatch h expected"
  shows "arr_shape (case h of PyFloat x \<Rightarrow> scalar_times x (ones expected) | Array a \<Rightarrow> a) = expected"
  using assms
  by (cases h) (simp_all add: shape_mismatch_def float_or_array_def scalar_times_def ones_def)

section \<open>The EM iteration on one state and one component\<close>





















section \<open>The claims\<close>

text \<open>
  C1: for a non-empty sequence whose smoothed probabilities have one row of \<open>K\<close> entries
  per time step, the E-step returns statistics whose entries are
  \<open>N[k,c] = sum_t sp[t,k] * r[t,k,c]\<close>,
  \<open>Sx[k,c,n] = sum_t sp[t,k] * r[t,k,c] * x[t,n]\<close> and
  \<open>SxxT[k,c,n] = sum_t sp[t,k] * r[t,k,c] * x[t,n] * x[t,n]\<close>,
  where \<open>sp\<close> are the smoothed state probabilities and \<open>r[t]\<close> the responsibilities
  \<open>prob_fn\<close> of the emission \<open>x[t]\<close>: the second moment is the elementwise square,
  its diagonal only.
\<close>

theorem e_step_statistics:
  assumes "sp = smoothed_probs (run_smoother env m emissions)"
    and "emissions \<noteq> []"
    and "length sp = length emissions"
    and "\<forall>row\<in>set sp. length row = K"
    and "mixture_shape m K M"
    and "\<forall>e\<in>set emissions. length e = D"
    and "k < K" and "c < M" and "n < D"
  shows "\<exists>s. single_e_step env m emissions = Inr s
       \<and> N s ! k ! c = (\<Sum>t<length emissions. sp ! t ! k * prob_fn m (emissions ! t) ! k ! c)
       \<and> Sx s ! k ! c ! n =
           (\<Sum>t<length emissions.
              sp ! t ! k * prob_fn m (emissions ! t) ! k ! c * emissions ! t ! n)
       \<and> SxxT s ! k ! c ! n =
           (\<Sum>t<length emissions.
              sp ! t ! k * prob_fn m (emissions ! t) ! k ! c * emissions ! t ! n
                * emissions ! t ! n)"
proof -
  from assms have "\<exists>s. single_e_step env m emissions = Inr s
       \<and> N s ! k ! c = (\<Sum>t<length emissions. sp ! t ! k * prob_fn m (emissions ! t) ! k ! c)
       \<and> Sx s ! k ! c ! n =
           (\<Sum>t<length emissions.
              sp ! t ! k * prob_fn m (emissions ! t) ! k ! c * emissions ! t ! n)
       \<and> SxxT s ! k ! c ! n =
           (\<Sum>t<length emissions.
              sp ! t ! k * prob_fn m (emissions ! t) ! k ! c * emissions ! t ! n
                * emissions ! t ! n)"
    by (rule single_e_step_sums)
  then show ?thesis .
qed

theorem e_step_statistics_witness:
  "\<exists>s. single_e_step one_state_collaborators two_component_model scenario_emissions = Inr s
       \<and> N s ! 0 ! 1 =
           (\<Sum>t<length scenario_emissions.
              smoothed_probs (run_smoother one_state_collaborators two_component_model
                                scenario_emissions) ! t ! 0
                * prob_fn two_component_model (scenario_emissions ! t) ! 0 ! 1)
       \<and> Sx s ! 0 ! 1 ! 0 =
           (\<Sum>t<length scenario_emissions.
              smoothed_probs (run_smoother one_state_collaborators two_component_model
                                scenario_emissions) ! t ! 0
                * prob_fn two_component_model (scenario_emissions ! t) ! 0 ! 1
                * scenario_emissions ! t ! 0)
       \<and> SxxT s ! 0 ! 1 ! 0 =
           (\<Sum>t<length scenario_emissions.
              smoothed_probs (run_smoother one_state_collaborators two_component_model
                                scenario_emissions) ! t ! 0
                * prob_fn two_component_model (scenario_emissions ! t) ! 0 ! 1
                * scenario_emissions ! t ! 0 * scenario_emissions ! t ! 0)"
  by (rule e_step_statistics[where K = 1 and M = 2 and D = 1])
     (simp_all add: smoothed_one_state scenario_emissions_def two_component_model_def
        mixture_shape_def)

text \<open>
  C2: for every state the M-step sets the mixture weights to the mode of the Dirichlet
  distribution whose concentration is the prior concentration plus the summed counts
  \<open>N\<close> of the state, that is \<open>(a - 1) / (sum a - number of components)\<close> for each
  posterior concentration \<open>a\<close>; with finite prior concentrations above one, finite
  non-negative counts and at least one component, the weights are non-negative and sum
  to one.
\<close>

theorem m_step_mixture_weights:
  assumes st: "st = tree_map_sum_axis0 bp"
    and len: "length (Sx st) = length (N st)" "length (SxxT st) = length (N st)"
    and k: "k < length (N st)"
    and conc: "conc = emission_mixture_weights_concentration m"
    and ne: "conc \<noteq> []" and same: "length (N st ! k) = length conc"
    and prior: "list_all (\<lambda>a. is_fin a \<and> Fin 1 < a) conc"
    and counts: "list_all (\<lambda>n. is_fin n \<and> Fin 0 \<le> n) (N st ! k)"
    and nu: "nu = add1 conc (N st ! k)"
    and w: "w = emission_mixture_weights (m_step_emissions m be bp) ! k"
  shows "w = dirichlet_mode nu
       \<and> w = map (\<lambda>a. (a - Fin 1) / (sum_list nu - Fin (real (length nu)))) nu
       \<and> list_all (\<lambda>x. is_fin x \<and> Fin 0 \<le> x) w
       \<and> sum_list w = Fin 1"
proof -
  define cs where "cs = map the_fin conc"
  define ns where "ns = map the_fin (N st ! k)"
  define as where "as = map2 (+) cs ns"
  have c_eq: "conc = map Fin cs"
    unfolding cs_def using prior by (intro list_all_is_fin_map) (simp add: list_all_iff)
  have n_eq: "N st ! k = map Fin ns"
    unfolding ns_def using counts by (intro list_all_is_fin_map) (simp add: list_all_iff)
  have lens: "length cs = length conc" "length ns = length conc"
    using same by (simp_all add: cs_def ns_def)
  have nu_eq: "nu = map Fin as"
    unfolding nu as_def by (subst c_eq, subst n_eq) (rule add1_Fin)
  have as_ne: "as \<noteq> []"
    using ne lens by (cases cs; cases ns) (simp_all add: as_def)
  have cs_gt: "\<forall>a\<in>set cs. 1 < a"
    using prior unfolding cs_def by (auto simp: list_all_iff is_fin_iff)
  have ns_ge: "\<forall>a\<in>set ns. 0 \<le> a"
    using counts unfolding ns_def by (auto simp: list_all_iff is_fin_iff)
  have as_gt: "\<forall>a\<in>set as. 1 < a"
  proof
    fix a assume "a \<in> set as"
    then obtain x y where "(x, y) \<in> set (zip cs ns)" "a = x + y"
      by (auto simp: as_def)
    moreover from this have "x \<in> set cs" "y \<in> set ns"
      by (auto dest: set_zip_leftD set_zip_rightD)
    ultimately show "1 < a" using cs_gt ns_ge by fastforce
  qed
  have w_eq: "w = dirichlet_mode nu"
    unfolding w nu conc by (rule m_step_weights_row[OF st len k])
  have pos: "0 < sum_list as - real (length as)"
    by (rule dirichlet_mode_real(2)[OF as_ne as_gt])
  have formula: "dirichlet_mode nu
           = map (\<lambda>a. (a - Fin 1) / (sum_list nu - Fin (real (length nu)))) nu"
    using pos by (simp add: nu_eq dirichlet_mode_real(1)[OF as_ne as_gt] sum_list_Fin o_def)
  show ?thesis
    using dirichlet_mode_simplex[OF as_ne as_gt] formula
    by (simp add: w_eq nu_eq)
qed

theorem m_step_mixture_weights_witness:
  "emission_mixture_weights (m_step_emissions two_component_model [] [stats_a, stats_b]) ! 0
     = dirichlet_mode [Fin 3, Fin 3]
   \<and> emission_mixture_weights (m_step_emissions two_component_model [] [stats_a, stats_b]) ! 0
     = map (\<lambda>a. (a - Fin 1) / (sum_list [Fin 3, Fin 3] - Fin (real (length [Fin 3, Fin 3::fl]))))
         [Fin 3, Fin 3]
   \<and> list_all (\<lambda>x. is_fin x \<and> Fin 0 \<le> x)
        (emission_mixture_weights (m_step_emissions two_component_model [] [stats_a, stats_b]) ! 0)
   \<and> sum_list
        (emission_mixture_weights (m_step_emissions two_component_model [] [stats_a, stats_b]) ! 0)
      = Fin 1"
  by (rule m_step_mixture_weights[where st = "tree_map_sum_axis0 [stats_a, stats_b]"
         and conc = "[Fin 2, Fin 2]"])
     (simp_all add: tree_map_sum_axis0_def sum_axis0_def stats_a_def stats_b_def
        two_component_model_def add1_def add2_def add3_def)

text \<open>
  C3: for a state and component whose summed count \<open>N\<close> is zero, the M-step returns the
  prior location as mean and the prior scale divided by the prior shape plus one as
  diagonal variance, and both are finite when the prior location and scale are finite
  and the prior shape is finite and positive.
\<close>

theorem zero_count_component:
  assumes st: "st = tree_map_sum_axis0 bp"
    and len: "length (Sx st) = length (N st)" "length (SxxT st) = length (N st)"
    and k: "k < length (N st)"
    and M: "length (emission_prior_mean m) = M" "length (emission_prior_mean_concentration m) = M"
      "length (emission_prior_shape m) = M" "length (emission_prior_scale m) = M"
      "length (Sx st ! k) = M" "length (SxxT st ! k) = M" "length (N st ! k) = M"
    and c: "c < M"
    and zero: "N st ! k ! c = Fin 0"
    and fin: "list_all is_fin (emission_prior_mean m ! c)"
      "list_all is_fin (emission_prior_scale m ! c)"
      "is_fin (emission_prior_shape m ! c)" "Fin 0 < emission_prior_shape m ! c"
  shows "emission_means (m_step_emissions m be bp) ! k ! c = emission_prior_mean m ! c
       \<and> emission_cov_diag_factors (m_step_emissions m be bp) ! k ! c
           = map (\<lambda>b. b / (emission_prior_shape m ! c + Fin 1)) (emission_prior_scale m ! c)
       \<and> list_all is_fin (emission_means (m_step_emissions m be bp) ! k ! c)
       \<and> list_all is_fin (emission_cov_diag_factors (m_step_emissions m be bp) ! k ! c)"
proof -
  have modes: "(emission_cov_diag_factors (m_step_emissions m be bp) ! k ! c,
          emission_means (m_step_emissions m be bp) ! k ! c)
           = (map (\<lambda>b. b / (emission_prior_shape m ! c + Fin 1)) (emission_prior_scale m ! c),
              emission_prior_mean m ! c)"
    unfolding m_step_modes_entry[OF st len k M c] zero
    by (rule posterior_mode_zero_count)
  obtain a where a: "emission_prior_shape m ! c = Fin a" "0 < a"
    using fin(3,4) by (auto simp: is_fin_iff)
  have "is_fin (b / (emission_prior_shape m ! c + Fin 1))" if "is_fin b" for b
    using that a by (auto simp: is_fin_iff)
  then have "list_all is_fin
               (map (\<lambda>b. b / (emission_prior_shape m ! c + Fin 1)) (emission_prior_scale m ! c))"
    using fin(2) by (simp add: list_all_iff)
  then show ?thesis
    using modes fin(1) by simp
qed

theorem zero_count_component_witness:
  "emission_means (m_step_emissions two_component_model [] [stats_a]) ! 0 ! 1
     = emission_prior_mean two_component_model ! 1
   \<and> emission_cov_diag_factors (m_step_emissions two_component_model [] [stats_a]) ! 0 ! 1
       = map (\<lambda>b. b / (emission_prior_shape two_component_model ! 1 + Fin 1))
           (emission_prior_scale two_component_model ! 1)
   \<and> list_all is_fin (emission_means (m_step_emissions two_component_model [] [stats_a]) ! 0 ! 1)
   \<and> list_all is_fin
        (emission_cov_diag_factors (m_step_emissions two_component_model [] [stats_a]) ! 0 ! 1)"
  by (rule zero_count_component[where st = stats_a and M = 2])
     (simp_all add: tree_map_sum_axis0_single stats_a_def two_component_model_def)

text \<open>
  C4: the E-step of a concatenated batch is the concatenation of the E-steps of its
  parts, one record per sequence in the order of the batch, each computed by
  \<open>_single_e_step\<close> from its own sequence alone; hence the sums of \<open>N\<close>, \<open>Sx\<close> and
  \<open>SxxT\<close> over the batch axis (as \<open>_m_step_emissions\<close> forms them) of the
  concatenation of two non-empty batches are the elementwise sums of those of the two
  batches.
\<close>

theorem e_step_additive:
  assumes "\<forall>e\<in>set (A @ B). smoothed_probs (run_smoother env m e) \<noteq> []"
    and "A \<noteq> []" and "B \<noteq> []"
  shows "\<exists>sa sb. e_step env m A = Inr sa \<and> e_step env m B = Inr sb
           \<and> e_step env m (A @ B) = Inr (sa @ sb)
           \<and> map (single_e_step env m) (A @ B) = map Inr (sa @ sb)
           \<and> N (tree_map_sum_axis0 (sa @ sb))
               = add2 (N (tree_map_sum_axis0 sa)) (N (tree_map_sum_axis0 sb))
           \<and> Sx (tree_map_sum_axis0 (sa @ sb))
               = add3 (Sx (tree_map_sum_axis0 sa)) (Sx (tree_map_sum_axis0 sb))
           \<and> SxxT (tree_map_sum_axis0 (sa @ sb))
               = add3 (SxxT (tree_map_sum_axis0 sa)) (SxxT (tree_map_sum_axis0 sb))"
proof -
  obtain sa where sa: "e_step env m A = Inr sa"
    using e_step_returns[of A env m] assms(1) by auto
  obtain sb where sb: "e_step env m B = Inr sb"
    using e_step_returns[of B env m] assms(1) by auto
  have ab: "e_step env m (A @ B) = Inr (sa @ sb)"
    by (simp add: e_step_append sa sb)
  have ne: "sa \<noteq> []" "sb \<noteq> []"
    using e_step_length[OF sa] e_step_length[OF sb] assms(2,3) by auto
  have "N (tree_map_sum_axis0 (sa @ sb))
               = add2 (N (tree_map_sum_axis0 sa)) (N (tree_map_sum_axis0 sb))"
    using ne by (simp add: tree_map_sum_axis0_def sum_axis0_append[of add2, OF add2_assoc])
  moreover have "Sx (tree_map_sum_axis0 (sa @ sb))
               = add3 (Sx (tree_map_sum_axis0 sa)) (Sx (tree_map_sum_axis0 sb))"
    using ne by (simp add: tree_map_sum_axis0_def sum_axis0_append[of add3, OF add3_assoc])
  moreover have "SxxT (tree_map_sum_axis0 (sa @ sb))
               = add3 (SxxT (tree_map_sum_axis0 sa)) (SxxT (tree_map_sum_axis0 sb))"
    using ne by (simp add: tree_map_sum_axis0_def sum_axis0_append[of add3, OF add3_assoc])
  ultimately show ?thesis
    using sa sb ab e_step_pointwise[of env m "A @ B" "sa @ sb"] by blast
qed

theorem e_step_additive_witness:
  "\<exists>sa sb. e_step one_state_collaborators scenario_model [scenario_emissions] = Inr sa
     \<and> e_step one_state_collaborators scenario_model [scenario_emissions, scenario_emissions] = Inr sb
     \<and> e_step one_state_collaborators scenario_model
          ([scenario_emissions] @ [scenario_emissions, scenario_emissions]) = Inr (sa @ sb)
     \<and> map (single_e_step one_state_collaborators scenario_model)
          ([scenario_emissions] @ [scenario_emissions, scenario_emissions]) = map Inr (sa @ sb)
     \<and> N (tree_map_sum_axis0 (sa @ sb))
         = add2 (N (tree_map_sum_axis0 sa)) (N (tree_map_sum_axis0 sb))
     \<and> Sx (tree_map_sum_axis0 (sa @ sb))
         = add3 (Sx (tree_map_sum_axis0 sa)) (Sx (tree_map_sum_axis0 sb))
     \<and> SxxT (tree_map_sum_axis0 (sa @ sb))
         = add3 (SxxT (tree_map_sum_axis0 sa)) (SxxT (tree_map_sum_axis0 sb))"
  by (rule e_step_additive) (simp_all add: smoothed_one_state scenario_emissions_def)

text \<open>
  C5: for a finite emission and every state with finite means, positive finite scales,
  non-negative finite weights and at least one positive weight, the responsibilities
  are the exponentials of the log-probabilities minus their log-sum-exp, and they sum
  to one (exactly, in real arithmetic).
\<close>

theorem responsibilities_normalized:
  assumes shape: "mixture_shape m K M" and ok: "emission_params_ok m"
    and x: "list_all is_fin x" and k: "k < K"
    and pos: "\<exists>w\<in>set (emission_mixture_weights m ! k). Fin 0 < w"
  shows "prob_fn m x ! k
           = map (\<lambda>l. fl_exp (l - logsumexp (logprobs m x ! k))) (logprobs m x ! k)
       \<and> sum_list (prob_fn m x ! k) = Fin 1"
  using softmax_row_sum[OF logprobs_row_ok(1)[OF shape ok x k]
          positive_weight_finite_logprob[OF shape ok x k pos]]
  by (simp add: prob_fn_row[OF shape k])

theorem responsibilities_normalized_witness:
  "prob_fn two_component_model [Fin 1] ! 0
     = map (\<lambda>l. fl_exp (l - logsumexp (logprobs two_component_model [Fin 1] ! 0)))
           (logprobs two_component_model [Fin 1] ! 0)
   \<and> sum_list (prob_fn two_component_model [Fin 1] ! 0) = Fin 1"
  by (rule responsibilities_normalized[where K = 1 and M = 2])
     (simp_all add: two_component_model_def mixture_shape_def emission_params_ok_def)

text \<open>
  C6, as stated: the M-step updater is handed statistics that the caller has summed and
  performs no summation across sequences.  It fails: handed the records of two
  sequences, \<open>_m_step_emissions\<close> returns the parameters of their sum, which are those
  of neither record.
\<close>

theorem m_step_sums_batch_counterexample:
  "m_step_emissions two_component_model [] [stats_a, stats_b]
     = m_step_emissions two_component_model [] [tree_map_sum_axis0 [stats_a, stats_b]]
   \<and> emission_mixture_weights (m_step_emissions two_component_model [] [stats_a, stats_b])
       = [[Fin (1 / 2), Fin (1 / 2)]]
   \<and> emission_mixture_weights (m_step_emissions two_component_model [] [stats_a])
       = [[Fin (2 / 3), Fin (1 / 3)]]
   \<and> emission_mixture_weights (m_step_emissions two_component_model [] [stats_b])
       = [[Fin (1 / 3), Fin (2 / 3)]]"
  by (simp add: m_step_emissions_def tree_map_sum_axis0_def sum_axis0_def Let_def
        stats_a_def stats_b_def two_component_model_def single_m_step_def
        add1_def add2_def add3_def dirichlet_mode_def)

text \<open>
  C6, amended: the M-step updater receives the batch of per-sequence records and sums
  each statistic over the batch axis itself before it updates the states: its result is
  that of the single summed record, whose entries of \<open>N\<close>, \<open>Sx\<close> and \<open>SxxT\<close> are
  the sums over the sequences.
\<close>

theorem m_step_sums_over_batch:
  assumes "bp \<noteq> []"
    and "\<forall>s\<in>set bp. k < length (N s) \<and> c < length (N s ! k)"
    and "\<forall>s\<in>set bp. k < length (Sx s) \<and> c < length (Sx s ! k) \<and> n < length (Sx s ! k ! c)"
    and "\<forall>s\<in>set bp. k < length (SxxT s) \<and> c < length (SxxT s ! k)
           \<and> n < length (SxxT s ! k ! c)"
    and "st = tree_map_sum_axis0 bp"
  shows "m_step_emissions m be bp = m_step_emissions m be' [st]
       \<and> N st ! k ! c = (\<Sum>b<length bp. N (bp ! b) ! k ! c)
       \<and> Sx st ! k ! c ! n = (\<Sum>b<length bp. Sx (bp ! b) ! k ! c ! n)
       \<and> SxxT st ! k ! c ! n = (\<Sum>b<length bp. SxxT (bp ! b) ! k ! c ! n)"
proof -
  have 0: "m_step_emissions m be bp = m_step_emissions m be' [st]"
    by (simp add: m_step_emissions_def tree_map_sum_axis0_single assms(5))
  have 1: "N st ! k ! c = (\<Sum>b<length bp. N (bp ! b) ! k ! c)"
    using sum_axis0_add2_nth[of "map N bp" k c] assms(1,2)
    by (simp add: assms(5) tree_map_sum_axis0_def)
  have 2: "Sx st ! k ! c ! n = (\<Sum>b<length bp. Sx (bp ! b) ! k ! c ! n)"
    using sum_axis0_add3_nth[of "map Sx bp" k c n] assms(1,3)
    by (simp add: assms(5) tree_map_sum_axis0_def)
  have 3: "SxxT st ! k ! c ! n = (\<Sum>b<length bp. SxxT (bp ! b) ! k ! c ! n)"
    using sum_axis0_add3_nth[of "map SxxT bp" k c n] assms(1,4)
    by (simp add: assms(5) tree_map_sum_axis0_def)
  show ?thesis using 0 1 2 3 by simp
qed

theorem m_step_sums_over_batch_witness:
  "m_step_emissions two_component_model [] [stats_a, stats_b]
     = m_step_emissions two_component_model [] [tree_map_sum_axis0 [stats_a, stats_b]]
       \<and> N (tree_map_sum_axis0 [stats_a, stats_b]) ! 0 ! 1
           = (\<Sum>b<length [stats_a, stats_b]. N ([stats_a, stats_b] ! b) ! 0 ! 1)
       \<and> Sx (tree_map_sum_axis0 [stats_a, stats_b]) ! 0 ! 1 ! 0
           = (\<Sum>b<length [stats_a, stats_b]. Sx ([stats_a, stats_b] ! b) ! 0 ! 1 ! 0)
       \<and> SxxT (tree_map_sum_axis0 [stats_a, stats_b]) ! 0 ! 1 ! 0
           = (\<Sum>b<length [stats_a, stats_b]. SxxT ([stats_a, stats_b] ! b) ! 0 ! 1 ! 0)"
  by (rule m_step_sums_over_batch) (simp_all add: stats_a_def stats_b_def)




text \<open>
  C8: in the scenario of one state, one component and emission dimension one, with
  prior location 0, mean concentration 1, shape 1 and scale 1, and for every smoother
  that returns a probability vector over the single state for each of the three
  observations 1.0, the E-step returns \<open>N = 3\<close>, \<open>Sx = 3\<close> and \<open>SxxT = 3\<close>, and
  the M-step that follows sets the mean to \<open>(1 * 0 + 3 * 1) / (1 + 3) = 3/4\<close>.
\<close>

theorem scenario_em_update:
  assumes sp: "sp = smoothed_probs (run_smoother env m scenario_emissions)"
    and rows: "length sp = 3" "\<forall>row\<in>set sp. length row = 1 \<and> sum_list row = Fin 1"
    and params: "emission_means m = [[[mu]]]" "emission_cov_diag_factors m = [[[sigma]]]"
      "emission_mixture_weights m = [[w]]"
    and valid: "is_fin mu" "is_fin sigma" "Fin 0 < sigma" "is_fin w" "Fin 0 < w"
    and prior: "emission_prior_mean m = [[Fin 0]]" "emission_prior_mean_concentration m = [Fin 1]"
      "emission_prior_shape m = [Fin 1]" "emission_prior_scale m = [[Fin 1]]"
  shows "\<exists>s. e_step env m [scenario_emissions] = Inr [s]
       \<and> N s = [[Fin 3]] \<and> Sx s = [[[Fin 3]]] \<and> SxxT s = [[[Fin 3]]]
       \<and> emission_means (m_step_emissions m [scenario_emissions] [s]) = [[[Fin (3 / 4)]]]"
proof -
  have sp_eq: "smoothed_probs (run_smoother env m scenario_emissions) = [[Fin 1], [Fin 1], [Fin 1]]"
    using unit_rows[OF rows] sp by simp
  have r: "prob_fn m [Fin 1] = [[Fin 1]]"
    using params valid
    by (intro prob_fn_single_component[of m "[mu]" "[sigma]" w "[Fin 1]"]) simp_all
  define s where "s = \<lparr>stats_marginal_loglik = marginal_loglik (run_smoother env m scenario_emissions),
      stats_initial_probs = [Fin 1],
      stats_trans_probs = compute_transition_probs env (transition_matrix_value env (base m))
                            (run_smoother env m scenario_emissions),
      N = [[Fin 3]], Sx = [[[Fin 3]]], SxxT = [[[Fin 3]]]\<rparr>"
  have step: "single_e_step env m scenario_emissions = Inr s"
    unfolding single_e_step_def Let_def sp_eq
    by (simp add: r scenario_emissions_def s_def
          einsum_tk_tkm_tkm_def einsum_tkm_tn_kmn_def einsum_tkm_tn_tn_kmn_def
          sum_axis0_def add1_def add2_def add3_def)
  have e: "e_step env m [scenario_emissions] = Inr [s]"
    by (simp add: step)
  have m: "emission_means (m_step_emissions m [scenario_emissions] [s]) = [[[Fin (3 / 4)]]]"
    by (simp add: m_step_emissions_def tree_map_sum_axis0_single Let_def s_def single_m_step_def
          prior posterior_mode_def nig_posterior_update_def nig_mode_def)
  show ?thesis using e m by (auto simp: s_def)
qed

theorem scenario_em_update_witness:
  "\<exists>s. e_step one_state_collaborators scenario_model [scenario_emissions] = Inr [s]
       \<and> N s = [[Fin 3]] \<and> Sx s = [[[Fin 3]]] \<and> SxxT s = [[[Fin 3]]]
       \<and> emission_means (m_step_emissions scenario_model [scenario_emissions] [s])
           = [[[Fin (3 / 4)]]]"
  by (rule scenario_em_update[where mu = "Fin 0" and sigma = "Fin 1" and w = "Fin 1"
        and sp = "[[Fin 1], [Fin 1], [Fin 1]]"])
     (simp_all add: smoothed_one_state scenario_model_def scenario_emissions_def)

text \<open>
  C9: when the base class is constructed, the emission means have rank three and each
  of the five prior hyperparameters is a float or an array, the constructor fails with
  an assertion error if some array has not exactly the expected shape, \<open>(M)\<close> for the
  mixture-weight concentration, the mean concentration and the shape, \<open>(M, D)\<close> for
  the prior mean and scale; otherwise it returns a model whose hyperparameters have
  these shapes.  A float is never a mismatch: it is broadcast.
\<close>

theorem constructor_shape_checks:
  assumes base: "standard_hmm_init env ip tm ipc tmc = Inr b"
    and rank: "arr_shape means = [K, M, D]"
    and args: "float_or_array c" "float_or_array pm" "float_or_array pk" "float_or_array ps"
      "float_or_array pb"
    and r: "r = gmm_diag_hmm_init env ip tm w means cov ipc tmc c pm pk ps pb"
    and bad: "bad = (shape_mismatch c [M] \<or> shape_mismatch pm [M, D] \<or> shape_mismatch pk [M]
                      \<or> shape_mismatch ps [M] \<or> shape_mismatch pb [M, D])"
  shows "(bad \<longrightarrow> r = Inl AssertionError)
       \<and> (\<not> bad \<longrightarrow>
            (\<exists>model. r = Inr model
               \<and> length (emission_mixture_weights_concentration model) = M
               \<and> length (emission_prior_mean model) = M
               \<and> list_all (\<lambda>row. length row = D) (emission_prior_mean model)
               \<and> length (emission_prior_mean_concentration model) = M
               \<and> length (emission_prior_shape model) = M
               \<and> length (emission_prior_scale model) = M
               \<and> list_all (\<lambda>row. length row = D) (emission_prior_scale model)))"
proof (cases bad)
  case True
  then have "r = Inl AssertionError"
    unfolding r gmm_diag_hmm_init_def bad
    by (auto simp: base rank bind_error_def check_hyper args)
  then show ?thesis using True by simp
next
  case False
  then have ok: "\<not> shape_mismatch c [M]" "\<not> shape_mismatch pm [M, D]" "\<not> shape_mismatch pk [M]"
    "\<not> shape_mismatch ps [M]" "\<not> shape_mismatch pb [M, D]"
    by (simp_all add: bad)
  show ?thesis
    using False
    unfolding r gmm_diag_hmm_init_def
    by (simp add: base rank bind_error_def check_hyper args ok to_list1_length to_list2_shape
          checked_shape)
qed

theorem constructor_shape_checks_witness:
  "gmm_diag_hmm_init one_state_collaborators
       \<lparr>arr_shape = [1], elems = [Fin 1]\<rparr> \<lparr>arr_shape = [1, 1], elems = [Fin 1]\<rparr>
       \<lparr>arr_shape = [1, 2], elems = [Fin 0, Fin 1]\<rparr>
       \<lparr>arr_shape = [1, 2, 1], elems = [Fin 0, Fin 1]\<rparr>
       \<lparr>arr_shape = [1, 2, 1], elems = [Fin 1, Fin 2]\<rparr>
       (PyFloat (Fin (11 / 10))) (PyFloat (Fin (11 / 10)))
       (PyFloat (Fin 2)) (Array \<lparr>arr_shape = [2], elems = [Fin 0, Fin 0]\<rparr>)
       (PyFloat (Fin 1)) (PyFloat (Fin 1)) (PyFloat (Fin 1))
     = Inl AssertionError
   \<and> (\<exists>model.
        gmm_diag_hmm_init one_state_collaborators
          \<lparr>arr_shape = [1], elems = [Fin 1]\<rparr> \<lparr>arr_shape = [1, 1], elems = [Fin 1]\<rparr>
          \<lparr>arr_shape = [1, 2], elems = [Fin 0, Fin 1]\<rparr>
          \<lparr>arr_shape = [1, 2, 1], elems = [Fin 0, Fin 1]\<rparr>
          \<lparr>arr_shape = [1, 2, 1], elems = [Fin 1, Fin 2]\<rparr>
          (PyFloat (Fin (11 / 10))) (PyFloat (Fin (11 / 10)))
          (PyFloat (Fin 2)) (Array \<lparr>arr_shape = [2, 1], elems = [Fin 0, Fin 0]\<rparr>)
          (PyFloat (Fin 1)) (PyFloat (Fin 1)) (PyFloat (Fin 1))
        = Inr model
        \<and> length (emission_mixture_weights_concentration model) = 2
        \<and> length (emission_prior_mean model) = 2
        \<and> list_all (\<lambda>row. length row = 1) (emission_prior_mean model)
        \<and> length (emission_prior_mean_concentration model) = 2
        \<and> length (emission_prior_shape model) = 2
        \<and> length (emission_prior_scale model) = 2
        \<and> list_all (\<lambda>row. length row = 1) (emission_prior_scale model))"
proof -
  have base: "standard_hmm_init one_state_collaborators \<lparr>arr_shape = [1], elems = [Fin 1]\<rparr>
                \<lparr>arr_shape = [1, 1], elems = [Fin 1]\<rparr> (PyFloat (Fin (11 / 10)))
                (PyFloat (Fin (11 / 10))) = Inr ()"
    by (simp add: one_state_collaborators_def)
  have rank: "arr_shape \<lparr>arr_shape = [1, 2, 1], elems = [Fin 0, Fin 1]\<rparr> = [1, 2, 1]"
    by simp
  have fl: "float_or_array (PyFloat x)" "float_or_array (Array a)" for x a
    by (simp_all add: float_or_array_def)
  note bad = constructor_shape_checks[OF base rank fl(1) fl(2) fl(1) fl(1) fl(1) refl refl,
      of "Fin 2" "\<lparr>arr_shape = [2], elems = [Fin 0, Fin 0]\<rparr>" "Fin 1" "Fin 1" "Fin 1"
         "\<lparr>arr_shape = [1, 2], elems = [Fin 0, Fin 1]\<rparr>"
         "\<lparr>arr_shape = [1, 2, 1], elems = [Fin 1, Fin 2]\<rparr>"]
  note good = constructor_shape_checks[OF base rank fl(1) fl(2) fl(1) fl(1) fl(1) refl refl,
      of "Fin 2" "\<lparr>arr_shape = [2, 1], elems = [Fin 0, Fin 0]\<rparr>" "Fin 1" "Fin 1" "Fin 1"
         "\<lparr>arr_shape = [1, 2], elems = [Fin 0, Fin 1]\<rparr>"
         "\<lparr>arr_shape = [1, 2, 1], elems = [Fin 1, Fin 2]\<rparr>"]
  show ?thesis
    using bad good by (simp add: shape_mismatch_def)
qed

text \<open>
  C10: in a state with a positive mixture weight, a component of weight zero has
  responsibility exactly 0 for every finite emission (not NaN), and its entries of
  \<open>N\<close>, \<open>Sx\<close> and \<open>SxxT\<close> are exactly 0 when the smoothed probabilities are finite.
\<close>

theorem zero_weight_component:
  assumes sp: "sp = smoothed_probs (run_smoother env m emissions)"
    and ne: "emissions \<noteq> []"
    and T: "length sp = length emissions"
    and spK: "\<forall>row\<in>set sp. length row = K \<and> list_all is_fin row"
    and shape: "mixture_shape m K M" and ok: "emission_params_ok m"
    and D: "\<forall>e\<in>set emissions. length e = D \<and> list_all is_fin e"
    and k: "k < K" and c: "c < M" and n: "n < D"
    and pos: "\<exists>w\<in>set (emission_mixture_weights m ! k). Fin 0 < w"
    and zero: "emission_mixture_weights m ! k ! c = Fin 0"
  shows "(\<forall>x\<in>set emissions. prob_fn m x ! k ! c = Fin 0)
       \<and> (\<exists>s. single_e_step env m emissions = Inr s
            \<and> N s ! k ! c = Fin 0 \<and> Sx s ! k ! c ! n = Fin 0 \<and> SxxT s ! k ! c ! n = Fin 0)"
proof -
  have r0: "prob_fn m x ! k ! c = Fin 0" if "x \<in> set emissions" for x
    using zero_weight_responsibility[OF shape ok _ k c pos zero] D that by blast
  have t1: "sp ! t ! k * prob_fn m (emissions ! t) ! k ! c = Fin 0"
    and e_fin: "is_fin (emissions ! t ! n)"
    if "t < length emissions" for t
  proof -
    have "is_fin (sp ! t ! k)"
      using spK T that k by (auto simp: list_all_length)
    then show "sp ! t ! k * prob_fn m (emissions ! t) ! k ! c = Fin 0"
      using r0 that by (auto simp: is_fin_iff)
    show "is_fin (emissions ! t ! n)"
      using D that n by (auto simp: list_all_length)
  qed
  have t2: "sp ! t ! k * prob_fn m (emissions ! t) ! k ! c * emissions ! t ! n = Fin 0"
    if "t < length emissions" for t
    using t1[OF that] e_fin[OF that] by (auto simp: is_fin_iff)
  have t3: "sp ! t ! k * prob_fn m (emissions ! t) ! k ! c * emissions ! t ! n
              * emissions ! t ! n = Fin 0"
    if "t < length emissions" for t
    using t2[OF that] e_fin[OF that] by (auto simp: is_fin_iff)
  have z: "(\<Sum>t<length emissions. Fin 0) = Fin 0"
    by (simp add: zero_fl_def[symmetric])
  have s1: "(\<Sum>t<length emissions. sp ! t ! k * prob_fn m (emissions ! t) ! k ! c) = Fin 0"
    using t1 z by simp
  have s2: "(\<Sum>t<length emissions.
              sp ! t ! k * prob_fn m (emissions ! t) ! k ! c * emissions ! t ! n) = Fin 0"
    using t2 z by simp
  have s3: "(\<Sum>t<length emissions.
              sp ! t ! k * prob_fn m (emissions ! t) ! k ! c * emissions ! t ! n
                * emissions ! t ! n) = Fin 0"
    using t3 z by simp
  have "\<exists>s. single_e_step env m emissions = Inr s
       \<and> N s ! k ! c = (\<Sum>t<length emissions. sp ! t ! k * prob_fn m (emissions ! t) ! k ! c)
       \<and> Sx s ! k ! c ! n =
           (\<Sum>t<length emissions.
              sp ! t ! k * prob_fn m (emissions ! t) ! k ! c * emissions ! t ! n)
       \<and> SxxT s ! k ! c ! n =
           (\<Sum>t<length emissions.
              sp ! t ! k * prob_fn m (emissions ! t) ! k ! c * emissions ! t ! n
                * emissions ! t ! n)"
    using sp ne T _ shape _ k c n by (rule single_e_step_sums) (use spK D in auto)
  then have "\<exists>s. single_e_step env m emissions = Inr s
            \<and> N s ! k ! c = Fin 0 \<and> Sx s ! k ! c ! n = Fin 0 \<and> SxxT s ! k ! c ! n = Fin 0"
    unfolding s1 s2 s3 .
  then show ?thesis
    using r0 by blast
qed

theorem zero_weight_component_witness:
  "prob_fn two_component_model [Fin 1] ! 0 ! 0 = Fin 0
   \<and> (\<exists>s. single_e_step one_state_collaborators two_component_model scenario_emissions = Inr s
          \<and> N s ! 0 ! 0 = Fin 0 \<and> Sx s ! 0 ! 0 ! 0 = Fin 0 \<and> SxxT s ! 0 ! 0 ! 0 = Fin 0)"
proof -
  have "(\<forall>x\<in>set scenario_emissions. prob_fn two_component_model x ! 0 ! 0 = Fin 0)
   \<and> (\<exists>s. single_e_step one_state_collaborators two_component_model scenario_emissions = Inr s
          \<and> N s ! 0 ! 0 = Fin 0 \<and> Sx s ! 0 ! 0 ! 0 = Fin 0 \<and> SxxT s ! 0 ! 0 ! 0 = Fin 0)"
    by (rule zero_weight_component[where K = 1 and M = 2 and D = 1
         and sp = "smoothed_probs (run_smoother one_state_collaborators two_component_model
                                scenario_emissions)"])
       (simp_all add: smoothed_one_state scenario_emissions_def two_component_model_def
          mixture_shape_def emission_params_ok_def)
  then show ?thesis
    by (simp add: scenario_emissions_def)
qed

end
